theory Spec2Isabelle
  imports Main
begin

section \<open>JavaScript values used by the handlers\<close>

text \<open>
  The handlers of \<^verbatim>\<open>src/index.ts\<close> receive optional strings (\<^verbatim>\<open>string | undefined\<close>:
  a zod \<^verbatim>\<open>.optional()\<close> field, or \<^verbatim>\<open>args[i]\<close> of the command line), modelled as
  \<open>string option\<close> with \<open>None\<close> for \<^verbatim>\<open>undefined\<close>. A property of a contact returned
  by the CRM is \<^verbatim>\<open>string | null\<close>, and reading a key the object does not have gives
  \<^verbatim>\<open>undefined\<close>: that is \<open>js_value\<close>.
\<close>

datatype js_value = Undefined | Null | Str string

text \<open>\<^verbatim>\<open>if (x)\<close>, \<^verbatim>\<open>!x\<close>: \<^verbatim>\<open>undefined\<close> and the empty string are falsy.\<close>

definition truthy :: "string option \<Rightarrow> bool" where
  "truthy x = (case x of None \<Rightarrow> False | Some s \<Rightarrow> s \<noteq> [])"

text \<open>\<^verbatim>\<open>x || d\<close> for an optional string \<open>x\<close> and a string \<open>d\<close>.\<close>

definition or_else :: "string option \<Rightarrow> string \<Rightarrow> string" where
  "or_else x d = (case x of None \<Rightarrow> d | Some s \<Rightarrow> if s = [] then d else s)"

text \<open>
  \<^verbatim>\<open>v || d\<close> for a property value \<open>v\<close>: \<^verbatim>\<open>undefined\<close>, \<^verbatim>\<open>null\<close> and the empty
  string are falsy.
\<close>

fun value_or :: "js_value \<Rightarrow> string \<Rightarrow> string" where
  "value_or (Str s) d = (if s = [] then d else s)"
| "value_or Undefined d = d"
| "value_or Null d = d"

text \<open>\<^verbatim>\<open>${v}\<close> inside a template literal.\<close>

fun template_value :: "js_value \<Rightarrow> string" where
  "template_value (Str s) = s"
| "template_value Undefined = ''undefined''"
| "template_value Null = ''null''"

text \<open>
  What a \<^verbatim>\<open>catch (error: any)\<close> receives: \<^verbatim>\<open>null\<close>/\<^verbatim>\<open>undefined\<close>, or an object
  whose \<^verbatim>\<open>message\<close> is a string or is missing.
\<close>

datatype thrown = Nullish | ErrorObject "string option"

text \<open>\<^verbatim>\<open>error?.message\<close>\<close>

fun optional_message :: "thrown \<Rightarrow> string option" where
  "optional_message Nullish = None"
| "optional_message (ErrorObject m) = m"

text \<open>\<^verbatim>\<open>error?.message || 'Unknown error'\<close>\<close>

definition error_message :: "thrown \<Rightarrow> string" where
  "error_message error = or_else (optional_message error) ''Unknown error''"

text \<open>\<^verbatim>\<open>Array.prototype.join\<close>\<close>

fun join :: "string \<Rightarrow> string list \<Rightarrow> string" where
  "join sep [] = []"
| "join sep [x] = x"
| "join sep (x # y # ys) = x @ sep @ join sep (y # ys)"

text \<open>
  \<^verbatim>\<open>${n}\<close> for a non-negative integer: its decimal digits. \<open>digit_char\<close> is
  only applied below 16 (a decimal digit here, a hexadecimal one in the JSON escapes).
\<close>

definition digit_char :: "nat \<Rightarrow> char" where
  "digit_char d = ''0123456789abcdef'' ! d"

fun string_of_nat :: "nat \<Rightarrow> string" where
  "string_of_nat n =
     (if n < 10 then [digit_char n] else string_of_nat (n div 10) @ [digit_char (n mod 10)])"

declare string_of_nat.simps [simp del]

text \<open>\<^verbatim>\<open>xs[i]\<close>: \<^verbatim>\<open>undefined\<close> past the end.\<close>

definition nth_opt :: "'a list \<Rightarrow> nat \<Rightarrow> 'a option" where
  "nth_opt xs i = (if i < length xs then Some (xs ! i) else None)"

section \<open>The property mapping sent to the CRM\<close>

text \<open>
  \<^verbatim>\<open>Record<string, string>\<close>: a JavaScript object keeps its string keys in insertion
  order, and an assignment to a key it already has keeps the key's place.
\<close>

type_synonym props = "(string \<times> string) list"

fun set_prop :: "string \<Rightarrow> string \<Rightarrow> props \<Rightarrow> props" where
  "set_prop k v [] = [(k, v)]"
| "set_prop k v ((k', v') # ps) = (if k' = k then (k, v) # ps else (k', v') # set_prop k v ps)"

text \<open>\<^verbatim>\<open>if (x) properties.k = x;\<close>\<close>

definition set_if_truthy :: "string \<Rightarrow> string option \<Rightarrow> props \<Rightarrow> props" where
  "set_if_truthy k x properties =
     (case x of None \<Rightarrow> properties
      | Some s \<Rightarrow> if s = [] then properties else set_prop k s properties)"

subsection \<open>\<^verbatim>\<open>JSON.stringify(properties, null, 2)\<close>\<close>

definition json_escape :: "char \<Rightarrow> string" where
  "json_escape c =
     (if c = CHR 0x22 then [CHR 0x5C, CHR 0x22]
      else if c = CHR 0x5C then [CHR 0x5C, CHR 0x5C]
      else if c = CHR 0x08 then [CHR 0x5C, CHR ''b'']
      else if c = CHR 0x0C then [CHR 0x5C, CHR ''f'']
      else if c = CHR 0x0A then [CHR 0x5C, CHR ''n'']
      else if c = CHR 0x0D then [CHR 0x5C, CHR ''r'']
      else if c = CHR 0x09 then [CHR 0x5C, CHR ''t'']
      else if (of_char c :: nat) < 32
        then [CHR 0x5C, CHR ''u'', CHR ''0'', CHR ''0'',
              digit_char (of_char c div 16), digit_char (of_char c mod 16)]
      else [c])"

definition json_quote :: "string \<Rightarrow> string" where
  "json_quote s = CHR 0x22 # concat (map json_escape s) @ [CHR 0x22]"

definition json_member :: "string \<times> string \<Rightarrow> string" where
  "json_member kv = ''  '' @ json_quote (fst kv) @ '': '' @ json_quote (snd kv)"

definition json_stringify :: "props \<Rightarrow> string" where
  "json_stringify properties =
     (if properties = [] then ''{}''
      else ''{\<newline>'' @ join '',\<newline>'' (map json_member properties) @ ''\<newline>}'')"

section \<open>The remote CRM\<close>

text \<open>
  The requests the handlers build. \<^verbatim>\<open>FilterOperatorEnum\<close> belongs to the HubSpot SDK;
  the source uses its member \<^verbatim>\<open>Eq\<close> only.
\<close>

datatype filter_operator = Eq

record filter =
  propertyName :: string
  operator :: filter_operator
  filter_value :: string

text \<open>
  A filter group is \<^verbatim>\<open>{ filters: [...] }\<close>, modelled as the list of its filters;
  \<open>sorts\<close> is \<open>None\<close> where the request object has no such key.
\<close>

record search_request =
  filterGroups :: "filter list list"
  search_properties :: "string list"
  search_limit :: nat
  sorts :: "string list option"

text \<open>
  The six arguments of
  \<^verbatim>\<open>basicApi.getPage(limit, after, properties, propertiesWithHistory, associations, archived)\<close>.
\<close>

record page_request =
  page_limit :: nat
  page_after :: "string option"
  page_properties :: "string list"
  propertiesWithHistory :: "string list option"
  associations :: "string list option"
  archived :: bool

datatype remote_call =
    Create props
  | DoSearch search_request
  | GetPage page_request
  | Update string props
  | Archive string

text \<open>A contact as the CRM returns it: \<^verbatim>\<open>contact.id\<close> and \<^verbatim>\<open>contact.properties\<close>.\<close>

record contact =
  contact_id :: string
  contact_properties :: "string \<Rightarrow> js_value"

text \<open>
  The bound client \<^verbatim>\<open>hubspotClient\<close>: each method either throws (\<open>Inl\<close>) or answers.
  \<open>basicApi_create\<close> answers with \<^verbatim>\<open>response.id\<close>, the two searches with
  \<^verbatim>\<open>response.results\<close>.
\<close>

record crm =
  basicApi_create :: "props \<Rightarrow> thrown + string"
  searchApi_doSearch :: "search_request \<Rightarrow> thrown + contact list"
  basicApi_getPage :: "page_request \<Rightarrow> thrown + contact list"
  basicApi_update :: "string \<Rightarrow> props \<Rightarrow> thrown + unit"
  basicApi_archive :: "string \<Rightarrow> thrown + unit"

section \<open>Dates\<close>

text \<open>
  A \<^verbatim>\<open>Date\<close> holds a time value or is invalid. What the process reads from its
  surroundings is a parameter: \<open>clock env i\<close> is what \<^verbatim>\<open>new Date()\<close> reads while record
  number \<open>i\<close> of a response is being formatted, \<open>dateParse\<close> is the engine's
  \<^verbatim>\<open>Date.parse\<close> (\<open>None\<close> for \<^verbatim>\<open>NaN\<close>), and \<open>localeString\<close> is how the process's locale
  prints a valid time value.
\<close>

datatype js_date = InvalidDate | TimeValue int

record env =
  clock :: "nat \<Rightarrow> int"
  dateParse :: "string \<Rightarrow> int option"
  localeString :: "int \<Rightarrow> string"

text \<open>\<^verbatim>\<open>new Date(s)\<close>\<close>

definition new_Date :: "env \<Rightarrow> string \<Rightarrow> js_date" where
  "new_Date e s = (case dateParse e s of None \<Rightarrow> InvalidDate | Some t \<Rightarrow> TimeValue t)"

text \<open>\<^verbatim>\<open>new Date()\<close>\<close>

definition new_Date_now :: "env \<Rightarrow> nat \<Rightarrow> js_date" where
  "new_Date_now e i = TimeValue (clock e i)"

text \<open>\<^verbatim>\<open>d.toLocaleString()\<close>\<close>

definition toLocaleString :: "env \<Rightarrow> js_date \<Rightarrow> string" where
  "toLocaleString e d =
     (case d of InvalidDate \<Rightarrow> ''Invalid Date'' | TimeValue t \<Rightarrow> localeString e t)"

section \<open>Tool handlers (protocol mode)\<close>

text \<open>
  Each handler below is the callback the source gives to \<^verbatim>\<open>server.tool\<close>: what runs
  once a request has passed the tool's schema. The schema itself comes with the tools,
  further down.
\<close>

record content_item =
  item_type :: string
  item_text :: string

record tool_result =
  content :: "content_item list"

definition text_result :: "string \<Rightarrow> tool_result" where
  "text_result t = \<lparr>content = [\<lparr>item_type = ''text'', item_text = t\<rparr>]\<rparr>"

text \<open>
  What one run of a handler does: the remote calls it issued, what it wrote with
  \<^verbatim>\<open>console.error(label, error)\<close>, and how it ended: \<open>Inr\<close> the result it returned,
  \<open>Inl\<close> an error it let escape to the server.
\<close>

record handler_outcome =
  calls :: "remote_call list"
  logged :: "(string \<times> thrown) list"
  returned :: "thrown + tool_result"

subsection \<open>create-contact\<close>

definition create_properties ::
  "string \<Rightarrow> string option \<Rightarrow> string option \<Rightarrow> string option \<Rightarrow> props" where
  "create_properties email firstName lastName phone =
     set_if_truthy ''phone'' phone
       (set_if_truthy ''lastname'' lastName
         (set_if_truthy ''firstname'' firstName [(''email'', email)]))"

definition create_contact_handler ::
  "crm \<Rightarrow> string \<Rightarrow> string option \<Rightarrow> string option \<Rightarrow> string option \<Rightarrow> handler_outcome" where
  "create_contact_handler hubspotClient email firstName lastName phone =
     (let properties = create_properties email firstName lastName phone
      in case basicApi_create hubspotClient properties of
           Inr response_id \<Rightarrow>
             \<lparr>calls = [Create properties], logged = [],
              returned = Inr (text_result
                (''Contact created successfully:\<newline>ID: '' @ response_id
                   @ ''\<newline>Email: '' @ email
                   @ ''\<newline>Name: '' @ or_else firstName '''' @ '' '' @ or_else lastName ''''))\<rparr>
         | Inl error \<Rightarrow>
             \<lparr>calls = [Create properties], logged = [(''Error creating contact:'', error)],
              returned = Inr (text_result
                (''Failed to create contact: '' @ error_message error))\<rparr>)"

subsection \<open>get-contact\<close>

definition get_contact_request :: "string \<Rightarrow> search_request" where
  "get_contact_request email =
     \<lparr>filterGroups = [[\<lparr>propertyName = ''email'', operator = Eq, filter_value = email\<rparr>]],
      search_properties = [''email'', ''firstname'', ''lastname'', ''phone''],
      search_limit = 1,
      sorts = None\<rparr>"

definition contact_found_text :: "contact \<Rightarrow> string" where
  "contact_found_text c =
     ''Contact found:\<newline>ID: '' @ contact_id c
       @ ''\<newline>Email: '' @ template_value (contact_properties c ''email'')
       @ ''\<newline>Name: '' @ value_or (contact_properties c ''firstname'') ''''
       @ '' '' @ value_or (contact_properties c ''lastname'') ''''
       @ ''\<newline>Phone: '' @ value_or (contact_properties c ''phone'') ''N/A''"

definition get_contact_handler :: "crm \<Rightarrow> string \<Rightarrow> handler_outcome" where
  "get_contact_handler hubspotClient email =
     (let searchRequest = get_contact_request email
      in case searchApi_doSearch hubspotClient searchRequest of
           Inr results \<Rightarrow>
             \<lparr>calls = [DoSearch searchRequest], logged = [],
              returned = Inr (text_result
                (case results of
                   [] \<Rightarrow> ''No contact found with email: '' @ email
                 | c # _ \<Rightarrow> contact_found_text c))\<rparr>
         | Inl error \<Rightarrow>
             \<lparr>calls = [DoSearch searchRequest], logged = [(''Error getting contact:'', error)],
              returned = Inr (text_result
                (''Failed to get contact: '' @ error_message error))\<rparr>)"

subsection \<open>The list formatter of search-contacts and get-last-contacts\<close>

definition create_date :: "env \<Rightarrow> nat \<Rightarrow> js_value \<Rightarrow> js_date" where
  "create_date e i createdate =
     (case createdate of
        Str s \<Rightarrow> if s \<noteq> [] then new_Date e s else new_Date_now e i
      | Undefined \<Rightarrow> new_Date_now e i
      | Null \<Rightarrow> new_Date_now e i)"

definition contact_lines :: "env \<Rightarrow> nat \<Rightarrow> contact \<Rightarrow> string list" where
  "contact_lines e i c =
     (let props = contact_properties c;
          createDate = create_date e i (props ''createdate'')
      in [''Contact ID: '' @ contact_id c,
          ''Name: '' @ value_or (props ''firstname'') '''' @ '' '' @ value_or (props ''lastname'') '''',
          ''Email: '' @ value_or (props ''email'') ''N/A'',
          ''Phone: '' @ value_or (props ''phone'') ''N/A'',
          ''Created: '' @ toLocaleString e createDate,
          ''---''])"

definition format_contact :: "env \<Rightarrow> nat \<Rightarrow> contact \<Rightarrow> string" where
  "format_contact e i c = join ''\<newline>'' (contact_lines e i c)"

text \<open>\<^verbatim>\<open>response.results.map(contact => ...)\<close>, record number \<open>i\<close> first.\<close>

fun format_contacts :: "env \<Rightarrow> nat \<Rightarrow> contact list \<Rightarrow> string list" where
  "format_contacts e i [] = []"
| "format_contacts e i (c # cs) = format_contact e i c # format_contacts e (Suc i) cs"

subsection \<open>search-contacts\<close>

definition list_properties :: "string list" where
  "list_properties = [''firstname'', ''lastname'', ''email'', ''company'', ''phone'', ''createdate'']"

definition search_contacts_page :: page_request where
  "search_contacts_page =
     \<lparr>page_limit = 10, page_after = None, page_properties = list_properties,
      propertiesWithHistory = None, associations = None, archived = False\<rparr>"

definition search_contacts_handler :: "env \<Rightarrow> crm \<Rightarrow> string option \<Rightarrow> handler_outcome" where
  "search_contacts_handler e hubspotClient query =
     (let limit = page_limit search_contacts_page
      in case basicApi_getPage hubspotClient search_contacts_page of
           Inr results \<Rightarrow>
             \<lparr>calls = [GetPage search_contacts_page], logged = [],
              returned = Inr (text_result
                (''Last '' @ string_of_nat limit @ '' contacts:\<newline>\<newline>''
                   @ join ''\<newline>\<newline>'' (format_contacts e 0 results)))\<rparr>
         | Inl error \<Rightarrow>
             \<lparr>calls = [GetPage search_contacts_page],
              logged = [(''Error searching contacts:'', error)],
              returned = Inr (text_result
                (''Failed to search contacts: '' @ error_message error))\<rparr>)"

subsection \<open>update-contact\<close>

definition update_properties ::
  "string option \<Rightarrow> string option \<Rightarrow> string option \<Rightarrow> string option \<Rightarrow> props" where
  "update_properties email firstName lastName phone =
     set_if_truthy ''phone'' phone
       (set_if_truthy ''lastname'' lastName
         (set_if_truthy ''firstname'' firstName
           (set_if_truthy ''email'' email [])))"

definition update_contact_handler ::
  "crm \<Rightarrow> string \<Rightarrow> string option \<Rightarrow> string option \<Rightarrow> string option \<Rightarrow> string option
     \<Rightarrow> handler_outcome" where
  "update_contact_handler hubspotClient contactId email firstName lastName phone =
     (let properties = update_properties email firstName lastName phone
      in case basicApi_update hubspotClient contactId properties of
           Inr response \<Rightarrow>
             \<lparr>calls = [Update contactId properties], logged = [],
              returned = Inr (text_result
                (''Contact updated successfully:\<newline>ID: '' @ contactId
                   @ ''\<newline>Updated Properties: '' @ json_stringify properties))\<rparr>
         | Inl error \<Rightarrow>
             \<lparr>calls = [Update contactId properties],
              logged = [(''Error updating contact:'', error)],
              returned = Inr (text_result
                (''Failed to update contact: '' @ error_message error))\<rparr>)"

subsection \<open>delete-contact\<close>

definition delete_contact_handler :: "crm \<Rightarrow> string \<Rightarrow> handler_outcome" where
  "delete_contact_handler hubspotClient contactId =
     (case basicApi_archive hubspotClient contactId of
        Inr response \<Rightarrow>
          \<lparr>calls = [Archive contactId], logged = [],
           returned = Inr (text_result
             (''Contact with ID '' @ contactId @ '' was successfully deleted.''))\<rparr>
      | Inl error \<Rightarrow>
          \<lparr>calls = [Archive contactId], logged = [(''Error deleting contact:'', error)],
           returned = Inr (text_result
             (''Failed to delete contact: '' @ error_message error))\<rparr>)"

subsection \<open>get-last-contacts\<close>

definition get_last_contacts_request :: search_request where
  "get_last_contacts_request =
     \<lparr>filterGroups = [], search_properties = list_properties, search_limit = 2,
      sorts = Some [''createdate'']\<rparr>"

definition get_last_contacts_handler :: "env \<Rightarrow> crm \<Rightarrow> handler_outcome" where
  "get_last_contacts_handler e hubspotClient =
     (let searchRequest = get_last_contacts_request;
          limit = search_limit searchRequest
      in case searchApi_doSearch hubspotClient searchRequest of
           Inr results \<Rightarrow>
             \<lparr>calls = [DoSearch searchRequest], logged = [],
              returned = Inr (text_result
                (''Last '' @ string_of_nat limit @ '' contacts (sorted by creation date):\<newline>\<newline>''
                   @ join ''\<newline>\<newline>'' (format_contacts e 0 results)))\<rparr>
         | Inl error \<Rightarrow>
             \<lparr>calls = [DoSearch searchRequest],
              logged = [(''Error getting last contacts:'', error)],
              returned = Inr (text_result
                (''Failed to get last contacts: '' @ error_message error))\<rparr>)"

section \<open>Tools: the schema, then the handler\<close>

text \<open>
  The handlers above are the callbacks given to \<^verbatim>\<open>server.tool\<close>. In protocol mode a
  request first meets the tool's schema, declared in the source beside the callback:
  \<^verbatim>\<open>z.string()\<close> for a required string, \<^verbatim>\<open>.optional()\<close> for one that may be missing,
  \<^verbatim>\<open>.email()\<close> for one that must be an email address. A request is given here by its
  fields, \<open>None\<close> for a key it does not have.

  The check of an email address is zod's and is not part of the source: it is the
  parameter \<open>isEmail\<close>.
\<close>

text \<open>
  Modelled from the spec: that the schema is applied before the callback runs, and what
  happens when it fails, is the protocol library's doing, outside the source. The spec's
  section 4.1 has it: "Validation occurs before the handler runs: malformed input (e.g.,
  not-an-email string where an email is required) must be rejected before any external
  call is attempted, with a validation-failure result distinct from a remote-call
  failure."
\<close>

datatype tool_response = ValidationFailure | Ran handler_outcome

text \<open>The remote calls a tool call issued: none when the request was rejected.\<close>

fun tool_calls :: "tool_response \<Rightarrow> remote_call list" where
  "tool_calls ValidationFailure = []"
| "tool_calls (Ran outcome) = calls outcome"

text \<open>\<^verbatim>\<open>z.string().email().optional()\<close>\<close>

definition optional_email :: "(string \<Rightarrow> bool) \<Rightarrow> string option \<Rightarrow> bool" where
  "optional_email isEmail x = (case x of None \<Rightarrow> True | Some v \<Rightarrow> isEmail v)"

definition create_contact_tool ::
  "(string \<Rightarrow> bool) \<Rightarrow> crm \<Rightarrow> string option \<Rightarrow> string option \<Rightarrow> string option
     \<Rightarrow> string option \<Rightarrow> tool_response" where
  "create_contact_tool isEmail hubspotClient email firstName lastName phone =
     (case email of
        None \<Rightarrow> ValidationFailure
      | Some v \<Rightarrow>
          if isEmail v then Ran (create_contact_handler hubspotClient v firstName lastName phone)
          else ValidationFailure)"

definition get_contact_tool :: "(string \<Rightarrow> bool) \<Rightarrow> crm \<Rightarrow> string option \<Rightarrow> tool_response" where
  "get_contact_tool isEmail hubspotClient email =
     (case email of
        None \<Rightarrow> ValidationFailure
      | Some v \<Rightarrow>
          if isEmail v then Ran (get_contact_handler hubspotClient v) else ValidationFailure)"

definition search_contacts_tool :: "env \<Rightarrow> crm \<Rightarrow> string option \<Rightarrow> tool_response" where
  "search_contacts_tool e hubspotClient query = Ran (search_contacts_handler e hubspotClient query)"

definition update_contact_tool ::
  "(string \<Rightarrow> bool) \<Rightarrow> crm \<Rightarrow> string option \<Rightarrow> string option \<Rightarrow> string option
     \<Rightarrow> string option \<Rightarrow> string option \<Rightarrow> tool_response" where
  "update_contact_tool isEmail hubspotClient contactId email firstName lastName phone =
     (case contactId of
        None \<Rightarrow> ValidationFailure
      | Some v \<Rightarrow>
          if optional_email isEmail email
          then Ran (update_contact_handler hubspotClient v email firstName lastName phone)
          else ValidationFailure)"

definition delete_contact_tool :: "crm \<Rightarrow> string option \<Rightarrow> tool_response" where
  "delete_contact_tool hubspotClient contactId =
     (case contactId of
        None \<Rightarrow> ValidationFailure
      | Some v \<Rightarrow> Ran (delete_contact_handler hubspotClient v))"

definition get_last_contacts_tool :: "env \<Rightarrow> crm \<Rightarrow> tool_response" where
  "get_last_contacts_tool e hubspotClient = Ran (get_last_contacts_handler e hubspotClient)"

section \<open>The order a search request asks for\<close>

text \<open>
  A search request names its sort keys as strings. What order the remote takes an entry
  to ask for is the remote's reading of the entry, not part of the source: it is the
  parameter \<open>reading\<close>, from an entry to a property and a direction.
\<close>

datatype direction = Ascending | Descending

definition requested_order ::
  "(string \<Rightarrow> string \<times> direction) \<Rightarrow> search_request \<Rightarrow> (string \<times> direction) list" where
  "requested_order reading request =
     (case sorts request of None \<Rightarrow> [] | Some entries \<Rightarrow> map reading entries)"

text \<open>
  Modelled from the spec: section 4.1 says of the request of get-last-contacts that it is
  "sorted by creation date ascending as returned by remote", the request naming the
  property alone. So the remote reads an entry that names a property as ascending order
  on that property.
\<close>

definition bare_key_ascending :: "string \<Rightarrow> string \<times> direction" where
  "bare_key_ascending entry = (entry, Ascending)"

section \<open>Direct command-line invocation\<close>

text \<open>
  What a run of \<^verbatim>\<open>main\<close> does: the remote calls it issued, the lines it wrote with
  \<^verbatim>\<open>console.log\<close> and \<^verbatim>\<open>console.error\<close> (one entry per call), and the status
  \<^verbatim>\<open>process.exit\<close> was called with; \<open>None\<close> when the process keeps running as a
  server. \<^verbatim>\<open>process.exit\<close> ends the run: nothing after it is executed.
\<close>

record cli_outcome =
  cli_calls :: "remote_call list"
  stdout :: "string list"
  stderr :: "string list"
  exit_code :: "nat option"

text \<open>The two \<^verbatim>\<open>console.error\<close> lines and \<^verbatim>\<open>process.exit(1)\<close> of a missing argument.\<close>

definition usage_exit :: "string \<Rightarrow> string \<Rightarrow> cli_outcome" where
  "usage_exit usage example =
     \<lparr>cli_calls = [], stdout = [], stderr = [usage, example], exit_code = Some 1\<rparr>"

subsection \<open>create-contact\<close>

definition create_usage :: cli_outcome where
  "create_usage = usage_exit
     ''Usage: node build/index.js create-contact [EMAIL] [FIRSTNAME] [LASTNAME] [PHONE]''
     ''Example: node build/index.js create-contact john@example.com John Doe +1234567890''"

text \<open>
  \<^verbatim>\<open>if (!email)\<close> is the two first cases: \<^verbatim>\<open>args[0]\<close> missing, or the empty string.
\<close>

definition cli_create_contact :: "crm \<Rightarrow> string list \<Rightarrow> cli_outcome" where
  "cli_create_contact hubspotClient args =
     (let firstName = nth_opt args 1;
          lastName = nth_opt args 2;
          phone = nth_opt args 3
      in case nth_opt args 0 of
           None \<Rightarrow> create_usage
         | Some email \<Rightarrow>
             if email = [] then create_usage
             else
               (let properties =
                      set_if_truthy ''phone'' phone
                        (set_if_truthy ''lastname'' lastName
                          (set_if_truthy ''firstname'' firstName [(''email'', email)]))
                in case basicApi_create hubspotClient properties of
                     Inr response_id \<Rightarrow>
                       \<lparr>cli_calls = [Create properties],
                        stdout = [''Contact created successfully:\<newline>ID: '' @ response_id
                           @ ''\<newline>Email: '' @ email
                           @ ''\<newline>Name: '' @ or_else firstName '''' @ '' ''
                           @ or_else lastName ''''],
                        stderr = [], exit_code = Some 0\<rparr>
                   | Inl error \<Rightarrow>
                       \<lparr>cli_calls = [Create properties], stdout = [],
                        stderr = [''Error creating contact: '' @ error_message error],
                        exit_code = Some 1\<rparr>))"

subsection \<open>get-contact\<close>

definition get_usage :: cli_outcome where
  "get_usage = usage_exit
     ''Usage: node build/index.js get-contact [EMAIL]''
     ''Example: node build/index.js get-contact john@example.com''"

definition cli_get_contact :: "crm \<Rightarrow> string list \<Rightarrow> cli_outcome" where
  "cli_get_contact hubspotClient args =
     (case nth_opt args 0 of
        None \<Rightarrow> get_usage
      | Some email \<Rightarrow>
          if email = [] then get_usage
          else
            (let searchRequest =
                   \<lparr>filterGroups =
                      [[\<lparr>propertyName = ''email'', operator = Eq, filter_value = email\<rparr>]],
                    search_properties = [''email'', ''firstname'', ''lastname'', ''phone''],
                    search_limit = 1,
                    sorts = None\<rparr>
             in case searchApi_doSearch hubspotClient searchRequest of
                  Inr results \<Rightarrow>
                    \<lparr>cli_calls = [DoSearch searchRequest],
                     stdout =
                       [case results of
                          [] \<Rightarrow> ''No contact found with email: '' @ email
                        | c # _ \<Rightarrow> contact_found_text c],
                     stderr = [], exit_code = Some 0\<rparr>
                | Inl error \<Rightarrow>
                    \<lparr>cli_calls = [DoSearch searchRequest], stdout = [],
                     stderr = [''Error getting contact: '' @ error_message error],
                     exit_code = Some 1\<rparr>))"

subsection \<open>delete-contact\<close>

definition delete_usage :: cli_outcome where
  "delete_usage = usage_exit
     ''Usage: node build/index.js delete-contact [CONTACT_ID]''
     ''Example: node build/index.js delete-contact 12345''"

definition cli_delete_contact :: "crm \<Rightarrow> string list \<Rightarrow> cli_outcome" where
  "cli_delete_contact hubspotClient args =
     (case nth_opt args 0 of
        None \<Rightarrow> delete_usage
      | Some contactId \<Rightarrow>
          if contactId = [] then delete_usage
          else
            (case basicApi_archive hubspotClient contactId of
               Inr response \<Rightarrow>
                 \<lparr>cli_calls = [Archive contactId],
                  stdout = [''Contact with ID '' @ contactId @ '' deleted successfully.''],
                  stderr = [], exit_code = Some 0\<rparr>
             | Inl error \<Rightarrow>
                 \<lparr>cli_calls = [Archive contactId], stdout = [],
                  stderr = [''Error deleting contact: '' @ error_message error],
                  exit_code = Some 1\<rparr>))"

subsection \<open>search-contacts and get-last-contacts\<close>

text \<open>The six \<^verbatim>\<open>console.log\<close> calls of one \<^verbatim>\<open>forEach\<close> round.\<close>

definition cli_contact_lines :: "env \<Rightarrow> nat \<Rightarrow> contact \<Rightarrow> string list" where
  "cli_contact_lines e i c =
     (let props = contact_properties c;
          createDate = create_date e i (props ''createdate'')
      in [''Contact ID: '' @ contact_id c,
          ''Name: '' @ value_or (props ''firstname'') '''' @ '' '' @ value_or (props ''lastname'') '''',
          ''Email: '' @ value_or (props ''email'') ''N/A'',
          ''Phone: '' @ value_or (props ''phone'') ''N/A'',
          ''Created: '' @ toLocaleString e createDate,
          ''---\<newline>''])"

fun cli_print_contacts :: "env \<Rightarrow> nat \<Rightarrow> contact list \<Rightarrow> string list" where
  "cli_print_contacts e i [] = []"
| "cli_print_contacts e i (c # cs) = cli_contact_lines e i c @ cli_print_contacts e (Suc i) cs"

definition cli_search_contacts :: "env \<Rightarrow> crm \<Rightarrow> cli_outcome" where
  "cli_search_contacts e hubspotClient =
     (let limit = 10;
          properties = [''firstname'', ''lastname'', ''email'', ''company'', ''phone'', ''createdate''];
          page = \<lparr>page_limit = limit, page_after = None, page_properties = properties,
                  propertiesWithHistory = None, associations = None, archived = False\<rparr>
      in case basicApi_getPage hubspotClient page of
           Inr results \<Rightarrow>
             \<lparr>cli_calls = [GetPage page],
              stdout = ''\<newline>Last 10 contacts:\<newline>'' # cli_print_contacts e 0 results,
              stderr = [], exit_code = Some 0\<rparr>
         | Inl error \<Rightarrow>
             \<lparr>cli_calls = [GetPage page], stdout = [],
              stderr = [''Error searching contacts: '' @ error_message error],
              exit_code = Some 1\<rparr>)"

definition cli_get_last_contacts :: "env \<Rightarrow> crm \<Rightarrow> cli_outcome" where
  "cli_get_last_contacts e hubspotClient =
     (let limit = 2;
          properties = [''firstname'', ''lastname'', ''email'', ''company'', ''phone'', ''createdate''];
          searchRequest = \<lparr>filterGroups = [], search_properties = properties,
                           search_limit = limit, sorts = Some [''createdate'']\<rparr>
      in case searchApi_doSearch hubspotClient searchRequest of
           Inr results \<Rightarrow>
             \<lparr>cli_calls = [DoSearch searchRequest],
              stdout = ''\<newline>Last 2 contacts (sorted by creation date):\<newline>''
                 # cli_print_contacts e 0 results,
              stderr = [], exit_code = Some 0\<rparr>
         | Inl error \<Rightarrow>
             \<lparr>cli_calls = [DoSearch searchRequest], stdout = [],
              stderr = [''Error getting last contacts: '' @ error_message error],
              exit_code = Some 1\<rparr>)"

subsection \<open>update-contact\<close>

text \<open>The \<^verbatim>\<open>switch (flag)\<close> of the flag loop; a flag it does not list changes nothing.\<close>

definition assign_flag :: "string \<Rightarrow> string \<Rightarrow> props \<Rightarrow> props" where
  "assign_flag flag v properties =
     (if flag = ''--email'' then set_prop ''email'' v properties
      else if flag = ''--firstName'' then set_prop ''firstname'' v properties
      else if flag = ''--lastName'' then set_prop ''lastname'' v properties
      else if flag = ''--phone'' then set_prop ''phone'' v properties
      else properties)"

text \<open>
  \<^verbatim>\<open>for (let i = 0; i < updateArgs.length; i += 2)\<close>: the flag is \<^verbatim>\<open>updateArgs[i]\<close>,
  its value \<^verbatim>\<open>updateArgs[i + 1]\<close>, and a falsy value (missing, or the empty string)
  skips the round.
\<close>

function cli_update_loop :: "string list \<Rightarrow> nat \<Rightarrow> props \<Rightarrow> props" where
  "cli_update_loop updateArgs i properties =
     (if i < length updateArgs
      then (case nth_opt updateArgs (i + 1) of
              None \<Rightarrow> cli_update_loop updateArgs (i + 2) properties
            | Some v \<Rightarrow>
                if v = [] then cli_update_loop updateArgs (i + 2) properties
                else cli_update_loop updateArgs (i + 2) (assign_flag (updateArgs ! i) v properties))
      else properties)"
  by pat_completeness auto
termination
  by (relation "measure (\<lambda>(updateArgs, i, properties). length updateArgs - i)") auto

declare cli_update_loop.simps [simp del]

definition update_usage :: cli_outcome where
  "update_usage = usage_exit
     ''Usage: node build/index.js update-contact [CONTACT_ID] --email [EMAIL] --firstName [FIRSTNAME] --lastName [LASTNAME] --phone [PHONE]''
     ''Example: node build/index.js update-contact 12345 --email new@example.com --firstName John --lastName Doe --phone +1234567890''"

text \<open>\<^verbatim>\<open>const [contactId, ...updateArgs] = args\<close>\<close>

definition cli_update_contact :: "crm \<Rightarrow> string list \<Rightarrow> cli_outcome" where
  "cli_update_contact hubspotClient args =
     (let updateArgs = drop 1 args
      in case nth_opt args 0 of
           None \<Rightarrow> update_usage
         | Some contactId \<Rightarrow>
             if contactId = [] then update_usage
             else
               (let properties = cli_update_loop updateArgs 0 []
                in case basicApi_update hubspotClient contactId properties of
                     Inr response \<Rightarrow>
                       \<lparr>cli_calls = [Update contactId properties],
                        stdout = [''Contact updated successfully:\<newline>ID: '' @ contactId
                           @ ''\<newline>Updated Properties: '' @ json_stringify properties],
                        stderr = [], exit_code = Some 0\<rparr>
                   | Inl error \<Rightarrow>
                       \<lparr>cli_calls = [Update contactId properties], stdout = [],
                        stderr = [''Error updating contact: '' @ error_message error],
                        exit_code = Some 1\<rparr>))"

subsection \<open>\<^verbatim>\<open>main\<close>\<close>

text \<open>
  \<^verbatim>\<open>main\<close> after \<^verbatim>\<open>server.connect(transport)\<close> has resolved: it writes the banner to the
  error stream, reads \<^verbatim>\<open>const [,, command, ...args] = process.argv\<close> and runs the branch of
  the command. With any other command, or none, nothing more happens and the process
  stays a server.
\<close>

definition main :: "env \<Rightarrow> crm \<Rightarrow> string list \<Rightarrow> cli_outcome" where
  "main e hubspotClient argv =
     (let command = nth_opt argv 2;
          args = drop 3 argv;
          run =
            (if command = Some ''create-contact'' then cli_create_contact hubspotClient args
             else if command = Some ''get-contact'' then cli_get_contact hubspotClient args
             else if command = Some ''delete-contact'' then cli_delete_contact hubspotClient args
             else if command = Some ''search-contacts'' then cli_search_contacts e hubspotClient
             else if command = Some ''update-contact'' then cli_update_contact hubspotClient args
             else if command = Some ''get-last-contacts'' then cli_get_last_contacts e hubspotClient
             else \<lparr>cli_calls = [], stdout = [], stderr = [], exit_code = None\<rparr>)
      in run\<lparr>stderr := ''HubSpot MCP Server running on stdio'' # stderr run\<rparr>)"

section \<open>The flag loop, pair by pair\<close>

text \<open>
  The flag loop reads \<^verbatim>\<open>updateArgs\<close> two entries at a time. \<open>update_pairs\<close> is the same
  loop written over what is left of the list; \<open>cli_update_loop_pairs\<close> below proves that
  the two agree. A last flag with no value after it assigns nothing.
\<close>

fun update_pairs :: "string list \<Rightarrow> props \<Rightarrow> props" where
  "update_pairs (flag # v # rest) properties =
     update_pairs rest (if v = [] then properties else assign_flag flag v properties)"
| "update_pairs [flag] properties = properties"
| "update_pairs [] properties = properties"

text \<open>
  The command line of an update-contact request: each supplied field as its flag followed
  by its value, in the order in which the handler reads the fields.
\<close>

definition flag_arg :: "string \<Rightarrow> string option \<Rightarrow> string list" where
  "flag_arg flag x = (case x of None \<Rightarrow> [] | Some v \<Rightarrow> [flag, v])"

definition update_flags ::
  "string option \<Rightarrow> string option \<Rightarrow> string option \<Rightarrow> string option \<Rightarrow> string list" where
  "update_flags email firstName lastName phone =
     flag_arg ''--email'' email @ flag_arg ''--firstName'' firstName
       @ flag_arg ''--lastName'' lastName @ flag_arg ''--phone'' phone"

text \<open>
  The request a list of flags stands for: a field's value is the last non-empty value
  given to its flag, and a field whose flag is given no such value is absent.
\<close>

fun last_value :: "string \<Rightarrow> string list \<Rightarrow> string option" where
  "last_value flag (f # v # rest) =
     (case last_value flag rest of
        Some w \<Rightarrow> Some w
      | None \<Rightarrow> if f = flag \<and> v \<noteq> [] then Some v else None)"
| "last_value flag [f] = None"
| "last_value flag [] = None"

text \<open>The flag that assigns a key of the mapping.\<close>

definition flag_key :: "string \<Rightarrow> string option" where
  "flag_key k =
     (if k = ''email'' then Some ''--email''
      else if k = ''firstname'' then Some ''--firstName''
      else if k = ''lastname'' then Some ''--lastName''
      else if k = ''phone'' then Some ''--phone''
      else None)"

text \<open>
  Two remote calls are the same call when they are the same method on the same
  arguments, a property mapping being taken as what it maps each key to: the order in
  which a JavaScript object lists its keys does not make it another mapping.
\<close>

fun same_call :: "remote_call \<Rightarrow> remote_call \<Rightarrow> bool" where
  "same_call (Create p) (Create q) = (map_of p = map_of q)"
| "same_call (Update i p) (Update j q) = (i = j \<and> map_of p = map_of q)"
| "same_call a b = (a = b)"

section \<open>Reading a printed block back\<close>

text \<open>
  Modelled from the spec: the repository prints contact blocks and has no function that
  reads one back; the spec's round-trip property speaks of "re-parsing the printed text".
  The reader below takes that at its word: the text is cut into lines at every newline,
  and a field's value is what follows its label on the first line that starts with the
  label.
\<close>

fun split_lines :: "string \<Rightarrow> string list" where
  "split_lines [] = [[]]"
| "split_lines (c # cs) =
     (if c = CHR 0x0A then [] # split_lines cs
      else (case split_lines cs of [] \<Rightarrow> [[c]] | l # ls \<Rightarrow> (c # l) # ls))"

fun field_of :: "string \<Rightarrow> string list \<Rightarrow> string option" where
  "field_of label [] = None"
| "field_of label (l # ls) =
     (if take (length label) l = label then Some (drop (length label) l)
      else field_of label ls)"

record parsed_contact =
  parsed_id :: "string option"
  parsed_name :: "string option"
  parsed_email :: "string option"
  parsed_phone :: "string option"

definition parse_block :: "string \<Rightarrow> parsed_contact" where
  "parse_block printed =
     (let ls = split_lines printed
      in \<lparr>parsed_id = field_of ''Contact ID: '' ls,
          parsed_name = field_of ''Name: '' ls,
          parsed_email = field_of ''Email: '' ls,
          parsed_phone = field_of ''Phone: '' ls\<rparr>)"

section \<open>Concrete surroundings for evaluating the handlers\<close>

text \<open>
  A CRM with no contacts that accepts every write, a CRM whose every method throws the
  same error, and a process whose clock stands at 0, whose \<^verbatim>\<open>Date.parse\<close> knows one
  timestamp and answers \<^verbatim>\<open>NaN\<close> otherwise (as it does for the empty string), and whose
  locale prints a time value by its number of milliseconds.
\<close>

definition crm_empty :: crm where
  "crm_empty =
     \<lparr>basicApi_create = (\<lambda>properties. Inr ''101''),
      searchApi_doSearch = (\<lambda>request. Inr []),
      basicApi_getPage = (\<lambda>page. Inr []),
      basicApi_update = (\<lambda>contactId properties. Inr ()),
      basicApi_archive = (\<lambda>contactId. Inr ())\<rparr>"

definition crm_failing :: "thrown \<Rightarrow> crm" where
  "crm_failing error =
     \<lparr>basicApi_create = (\<lambda>properties. Inl error),
      searchApi_doSearch = (\<lambda>request. Inl error),
      basicApi_getPage = (\<lambda>page. Inl error),
      basicApi_update = (\<lambda>contactId properties. Inl error),
      basicApi_archive = (\<lambda>contactId. Inl error)\<rparr>"

definition env_fixed :: env where
  "env_fixed =
     \<lparr>clock = (\<lambda>i. 0),
      dateParse = (\<lambda>s. if s = ''2024-01-01T00:00:00.000Z'' then Some 1704067200000 else None),
      localeString =
        (\<lambda>t. if t = 0 then ''0 ms''
             else if t = 1704067200000 then ''1704067200000 ms''
             else ''other'')\<rparr>"

definition contact_of ::
  "string \<Rightarrow> js_value \<Rightarrow> js_value \<Rightarrow> js_value \<Rightarrow> js_value \<Rightarrow> js_value \<Rightarrow> contact" where
  "contact_of cid email firstname lastname phone createdate =
     \<lparr>contact_id = cid,
      contact_properties =
        (\<lambda>k. if k = ''email'' then email
             else if k = ''firstname'' then firstname
             else if k = ''lastname'' then lastname
             else if k = ''phone'' then phone
             else if k = ''createdate'' then createdate
             else Undefined)\<rparr>"

text \<open>
  A check of email addresses to evaluate the tools with: exactly one \<^verbatim>\<open>@\<close>, with
  something before it and something after it. Like zod's, it rejects the empty string.
\<close>

definition simple_email :: "string \<Rightarrow> bool" where
  "simple_email s =
     (takeWhile (\<lambda>c. c \<noteq> CHR ''@'') s \<noteq> []
      \<and> (case dropWhile (\<lambda>c. c \<noteq> CHR ''@'') s of
            [] \<Rightarrow> False
          | c # domain \<Rightarrow> domain \<noteq> [] \<and> CHR ''@'' \<notin> set domain))"

section \<open>Properties of the handlers\<close>

lemma string_of_nat_10: "string_of_nat 10 = ''10''"
  by (simp add: string_of_nat.simps [of 10] string_of_nat.simps [of 1]
      string_of_nat.simps [of "Suc 0"] digit_char_def)

lemma string_of_nat_2: "string_of_nat 2 = ''2''"
  by (simp add: string_of_nat.simps [of 2] digit_char_def)

text \<open>
  C4. Every run of search-contacts issues one and the same remote call, the page fetch
  with limit 10 (no cursor, the six listed properties, not archived), whatever the
  \<open>query\<close> argument is, absent included: \<open>query\<close> is never used as a filter.
\<close>

theorem search_contacts_ignores_query:
  "calls (search_contacts_handler e hubspotClient query1)
     = calls (search_contacts_handler e hubspotClient query2)
   \<and> calls (search_contacts_handler e hubspotClient query1) = [GetPage search_contacts_page]
   \<and> page_limit search_contacts_page = 10
   \<and> search_contacts_handler e hubspotClient query1
     = search_contacts_handler e hubspotClient None"
  by (simp add: search_contacts_handler_def search_contacts_page_def split: sum.split)

subsection \<open>What a property mapping can hold\<close>

lemma set_prop_keys: "fst ` set (set_prop k v ps) = insert k (fst ` set ps)"
  by (induction k v ps rule: set_prop.induct) (simp_all add: insert_commute)

lemma set_prop_values: "snd ` set (set_prop k v ps) \<subseteq> insert v (snd ` set ps)"
  by (induction k v ps rule: set_prop.induct) (simp, simp, blast)

lemma truthy_supplied: "truthy x \<Longrightarrow> x \<noteq> None"
  by (auto simp: truthy_def split: option.splits)

lemma set_if_truthy_keys:
  "fst ` set (set_if_truthy k x ps) = (if truthy x then insert k (fst ` set ps) else fst ` set ps)"
  by (simp add: set_if_truthy_def truthy_def set_prop_keys split: option.split)

lemma set_if_truthy_values:
  "'''' \<notin> snd ` set ps \<Longrightarrow> '''' \<notin> snd ` set (set_if_truthy k x ps)"
  using set_prop_values [of k _ ps]
  by (auto simp: set_if_truthy_def split: option.split)

text \<open>
  C2. The update-contact handler issues exactly one remote call, the update of
  \<open>contactId\<close> with the mapping it built. Every key of that mapping is one of the four
  field keys, and a key is there only if its field was supplied in the request. With no
  optional field supplied the mapping is empty, and the update call is issued all the same.
\<close>

theorem update_contact_only_supplied_keys:
  "calls (update_contact_handler hubspotClient contactId email firstName lastName phone)
     = [Update contactId (update_properties email firstName lastName phone)]
   \<and> fst ` set (update_properties email firstName lastName phone)
       \<subseteq> {''email'', ''firstname'', ''lastname'', ''phone''}
   \<and> (''email'' \<in> fst ` set (update_properties email firstName lastName phone)
        \<longrightarrow> email \<noteq> None)
   \<and> (''firstname'' \<in> fst ` set (update_properties email firstName lastName phone)
        \<longrightarrow> firstName \<noteq> None)
   \<and> (''lastname'' \<in> fst ` set (update_properties email firstName lastName phone)
        \<longrightarrow> lastName \<noteq> None)
   \<and> (''phone'' \<in> fst ` set (update_properties email firstName lastName phone)
        \<longrightarrow> phone \<noteq> None)
   \<and> update_properties None None None None = []
   \<and> calls (update_contact_handler hubspotClient contactId None None None None)
       = [Update contactId []]"
proof -
  have issued: "calls (update_contact_handler hubspotClient contactId a b c d)
      = [Update contactId (update_properties a b c d)]" for a b c d
    by (simp add: update_contact_handler_def Let_def split: sum.split)
  have keys: "fst ` set (update_properties email firstName lastName phone)
      = (if truthy phone then {''phone''} else {})
        \<union> (if truthy lastName then {''lastname''} else {})
        \<union> (if truthy firstName then {''firstname''} else {})
        \<union> (if truthy email then {''email''} else {})"
    by (auto simp: update_properties_def set_if_truthy_keys)
  have none: "update_properties None None None None = []"
    by (simp add: update_properties_def set_if_truthy_def)
  show ?thesis
    using issued [of email firstName lastName phone] issued [of None None None None] none
    by (auto simp: keys dest: truthy_supplied split: if_splits)
qed

theorem update_contact_only_supplied_keys_witness:
  "calls (update_contact_handler crm_empty ''42''
       (Some ''a@b.com'') (Some ''A'') (Some ''B'') (Some ''555''))
     = [Update ''42''
         [(''email'', ''a@b.com''), (''firstname'', ''A''), (''lastname'', ''B''),
          (''phone'', ''555'')]]
   \<and> ''email''
       \<in> fst ` set (update_properties (Some ''a@b.com'') (Some ''A'') (Some ''B'') (Some ''555''))
   \<and> ''firstname''
       \<in> fst ` set (update_properties (Some ''a@b.com'') (Some ''A'') (Some ''B'') (Some ''555''))
   \<and> ''lastname''
       \<in> fst ` set (update_properties (Some ''a@b.com'') (Some ''A'') (Some ''B'') (Some ''555''))
   \<and> ''phone''
       \<in> fst ` set (update_properties (Some ''a@b.com'') (Some ''A'') (Some ''B'') (Some ''555''))
   \<and> Some ''a@b.com'' \<noteq> (None :: string option) \<and> Some ''A'' \<noteq> (None :: string option)
   \<and> Some ''B'' \<noteq> (None :: string option) \<and> Some ''555'' \<noteq> (None :: string option)
   \<and> calls (update_contact_handler crm_empty ''42'' None None None None) = [Update ''42'' []]"
  using update_contact_only_supplied_keys [of crm_empty "''42''"
      "Some ''a@b.com''" "Some ''A''" "Some ''B''" "Some ''555''"]
  by (simp add: update_properties_def set_if_truthy_def)

subsection \<open>Empty results\<close>

text \<open>
  C3. When the remote answers with zero results, each of get-contact, search-contacts and
  get-last-contacts returns a success result and logs no error: get-contact's text says
  that no contact was found with that email, and the two list operations return their
  heading followed by an empty list. In no case is the result the failure result of the
  handler's \<^verbatim>\<open>catch\<close> branch, whatever the error.
\<close>

theorem no_results_is_success:
  "(searchApi_doSearch hubspotClient (get_contact_request email) = Inr [] \<longrightarrow>
      returned (get_contact_handler hubspotClient email)
        = Inr (text_result (''No contact found with email: '' @ email))
      \<and> returned (get_contact_handler hubspotClient email)
        \<noteq> Inr (text_result (''Failed to get contact: '' @ error_message error))
      \<and> logged (get_contact_handler hubspotClient email) = [])
   \<and> (basicApi_getPage hubspotClient search_contacts_page = Inr [] \<longrightarrow>
      returned (search_contacts_handler e hubspotClient query)
        = Inr (text_result ''Last 10 contacts:\<newline>\<newline>'')
      \<and> returned (search_contacts_handler e hubspotClient query)
        \<noteq> Inr (text_result (''Failed to search contacts: '' @ error_message error))
      \<and> logged (search_contacts_handler e hubspotClient query) = [])
   \<and> (searchApi_doSearch hubspotClient get_last_contacts_request = Inr [] \<longrightarrow>
      returned (get_last_contacts_handler e hubspotClient)
        = Inr (text_result ''Last 2 contacts (sorted by creation date):\<newline>\<newline>'')
      \<and> returned (get_last_contacts_handler e hubspotClient)
        \<noteq> Inr (text_result (''Failed to get last contacts: '' @ error_message error))
      \<and> logged (get_last_contacts_handler e hubspotClient) = [])"
  by (simp add: get_contact_handler_def search_contacts_handler_def
      get_last_contacts_handler_def text_result_def string_of_nat_10 string_of_nat_2
      search_contacts_page_def get_last_contacts_request_def)

theorem no_results_is_success_witness:
  "searchApi_doSearch crm_empty (get_contact_request ''nobody@example.com'') = Inr []
   \<and> returned (get_contact_handler crm_empty ''nobody@example.com'')
       = Inr (text_result ''No contact found with email: nobody@example.com'')
   \<and> basicApi_getPage crm_empty search_contacts_page = Inr []
   \<and> returned (search_contacts_handler env_fixed crm_empty None)
       = Inr (text_result ''Last 10 contacts:\<newline>\<newline>'')
   \<and> searchApi_doSearch crm_empty get_last_contacts_request = Inr []
   \<and> returned (get_last_contacts_handler env_fixed crm_empty)
       = Inr (text_result ''Last 2 contacts (sorted by creation date):\<newline>\<newline>'')"
  using no_results_is_success [of crm_empty "''nobody@example.com''" Nullish env_fixed None]
  by (simp add: crm_empty_def)

subsection \<open>The request of get-last-contacts\<close>

text \<open>
  C6. Every run of get-last-contacts issues exactly one remote call, a search whose
  request has no filter groups, the limit 2 and the single sort entry \<^verbatim>\<open>createdate\<close>.
  The entry names the property alone; under every reading of sort entries that takes
  this entry as ascending order on \<^verbatim>\<open>createdate\<close>, the order the request asks for is
  creation date, ascending, and nothing else.
\<close>

theorem get_last_contacts_request_shape:
  "calls (get_last_contacts_handler e hubspotClient) = [DoSearch get_last_contacts_request]
   \<and> filterGroups get_last_contacts_request = []
   \<and> search_limit get_last_contacts_request = 2
   \<and> sorts get_last_contacts_request = Some [''createdate'']
   \<and> search_properties get_last_contacts_request
       = [''firstname'', ''lastname'', ''email'', ''company'', ''phone'', ''createdate'']
   \<and> (reading ''createdate'' = (''createdate'', Ascending) \<longrightarrow>
        requested_order reading get_last_contacts_request = [(''createdate'', Ascending)])"
  by (simp add: get_last_contacts_handler_def get_last_contacts_request_def list_properties_def
      requested_order_def Let_def split: sum.split)

theorem get_last_contacts_request_shape_witness:
  "bare_key_ascending ''createdate'' = (''createdate'', Ascending)
   \<and> calls (get_last_contacts_handler env_fixed crm_empty) = [DoSearch get_last_contacts_request]
   \<and> requested_order bare_key_ascending get_last_contacts_request = [(''createdate'', Ascending)]"
  using get_last_contacts_request_shape [of env_fixed crm_empty bare_key_ascending]
  by (simp add: bare_key_ascending_def)

subsection \<open>create-contact on the command line, without an email\<close>

text \<open>
  C7. Launched as \<^verbatim>\<open>create-contact\<close> with no email argument, \<^verbatim>\<open>main\<close> writes the banner
  and the two usage lines to the error stream, nothing to the output stream, calls
  \<^verbatim>\<open>process.exit(1)\<close> and issues no remote call. An empty string in the email's place is
  handled the same way.
\<close>

theorem cli_create_contact_without_email:
  "main e hubspotClient [node, script, ''create-contact''] =
     \<lparr>cli_calls = [], stdout = [],
      stderr = [''HubSpot MCP Server running on stdio'',
        ''Usage: node build/index.js create-contact [EMAIL] [FIRSTNAME] [LASTNAME] [PHONE]'',
        ''Example: node build/index.js create-contact john@example.com John Doe +1234567890''],
      exit_code = Some 1\<rparr>
   \<and> main e hubspotClient (node # script # ''create-contact'' # '''' # rest) =
       main e hubspotClient [node, script, ''create-contact'']"
  by (simp add: main_def nth_opt_def cli_create_contact_def create_usage_def usage_exit_def)

subsection \<open>Errors of the remote call\<close>

lemma error_message_fallback:
  "optional_message error = None \<Longrightarrow> error_message error = ''Unknown error''"
  by (simp add: error_message_def or_else_def)

text \<open>
  C5. Every handler ends by returning a result, never by letting an error escape. When
  its remote call throws, the result is the handler's failure text, which ends with the
  error's message; when the error carries no message (or is \<^verbatim>\<open>null\<close> or
  \<^verbatim>\<open>undefined\<close>), the text ends with \<^verbatim>\<open>Unknown error\<close>.
\<close>

theorem remote_errors_are_returned:
  "(\<exists>r. returned (create_contact_handler hubspotClient email firstName lastName phone) = Inr r)
   \<and> (\<exists>r. returned (get_contact_handler hubspotClient email) = Inr r)
   \<and> (\<exists>r. returned (search_contacts_handler e hubspotClient query) = Inr r)
   \<and> (\<exists>r. returned (update_contact_handler hubspotClient contactId uEmail firstName lastName phone) = Inr r)
   \<and> (\<exists>r. returned (delete_contact_handler hubspotClient contactId) = Inr r)
   \<and> (\<exists>r. returned (get_last_contacts_handler e hubspotClient) = Inr r)
   \<and> (basicApi_create hubspotClient (create_properties email firstName lastName phone) = Inl error
        \<longrightarrow> returned (create_contact_handler hubspotClient email firstName lastName phone)
            = Inr (text_result (''Failed to create contact: '' @ error_message error)))
   \<and> (searchApi_doSearch hubspotClient (get_contact_request email) = Inl error
        \<longrightarrow> returned (get_contact_handler hubspotClient email)
            = Inr (text_result (''Failed to get contact: '' @ error_message error)))
   \<and> (basicApi_getPage hubspotClient search_contacts_page = Inl error
        \<longrightarrow> returned (search_contacts_handler e hubspotClient query)
            = Inr (text_result (''Failed to search contacts: '' @ error_message error)))
   \<and> (basicApi_update hubspotClient contactId (update_properties uEmail firstName lastName phone)
          = Inl error
        \<longrightarrow> returned (update_contact_handler hubspotClient contactId uEmail firstName lastName phone)
            = Inr (text_result (''Failed to update contact: '' @ error_message error)))
   \<and> (basicApi_archive hubspotClient contactId = Inl error
        \<longrightarrow> returned (delete_contact_handler hubspotClient contactId)
            = Inr (text_result (''Failed to delete contact: '' @ error_message error)))
   \<and> (searchApi_doSearch hubspotClient get_last_contacts_request = Inl error
        \<longrightarrow> returned (get_last_contacts_handler e hubspotClient)
            = Inr (text_result (''Failed to get last contacts: '' @ error_message error)))
   \<and> (optional_message error = None \<longrightarrow> error_message error = ''Unknown error'')"
proof -
  have returns:
    "\<exists>r. returned (create_contact_handler hubspotClient email firstName lastName phone) = Inr r"
    "\<exists>r. returned (get_contact_handler hubspotClient email) = Inr r"
    "\<exists>r. returned (search_contacts_handler e hubspotClient query) = Inr r"
    "\<exists>r. returned (update_contact_handler hubspotClient contactId uEmail firstName lastName phone) = Inr r"
    "\<exists>r. returned (delete_contact_handler hubspotClient contactId) = Inr r"
    "\<exists>r. returned (get_last_contacts_handler e hubspotClient) = Inr r"
    by (simp_all add: create_contact_handler_def get_contact_handler_def
        search_contacts_handler_def update_contact_handler_def delete_contact_handler_def
        get_last_contacts_handler_def Let_def split: sum.split)
  have caught:
    "basicApi_create hubspotClient (create_properties email firstName lastName phone) = Inl error
        \<longrightarrow> returned (create_contact_handler hubspotClient email firstName lastName phone)
            = Inr (text_result (''Failed to create contact: '' @ error_message error))"
    "searchApi_doSearch hubspotClient (get_contact_request email) = Inl error
        \<longrightarrow> returned (get_contact_handler hubspotClient email)
            = Inr (text_result (''Failed to get contact: '' @ error_message error))"
    "basicApi_getPage hubspotClient search_contacts_page = Inl error
        \<longrightarrow> returned (search_contacts_handler e hubspotClient query)
            = Inr (text_result (''Failed to search contacts: '' @ error_message error))"
    "basicApi_update hubspotClient contactId (update_properties uEmail firstName lastName phone)
          = Inl error
        \<longrightarrow> returned (update_contact_handler hubspotClient contactId uEmail firstName lastName phone)
            = Inr (text_result (''Failed to update contact: '' @ error_message error))"
    "basicApi_archive hubspotClient contactId = Inl error
        \<longrightarrow> returned (delete_contact_handler hubspotClient contactId)
            = Inr (text_result (''Failed to delete contact: '' @ error_message error))"
    "searchApi_doSearch hubspotClient get_last_contacts_request = Inl error
        \<longrightarrow> returned (get_last_contacts_handler e hubspotClient)
            = Inr (text_result (''Failed to get last contacts: '' @ error_message error))"
    by (simp_all add: create_contact_handler_def get_contact_handler_def
        search_contacts_handler_def update_contact_handler_def delete_contact_handler_def
        get_last_contacts_handler_def Let_def)
  show ?thesis
    using returns caught error_message_fallback [of error] by blast
qed

theorem remote_errors_are_returned_witness:
  "basicApi_create (crm_failing (ErrorObject None)) (create_properties ''a@b.com'' None None None)
     = Inl (ErrorObject None)
   \<and> searchApi_doSearch (crm_failing (ErrorObject None)) (get_contact_request ''a@b.com'')
     = Inl (ErrorObject None)
   \<and> basicApi_getPage (crm_failing (ErrorObject None)) search_contacts_page
     = Inl (ErrorObject None)
   \<and> basicApi_update (crm_failing (ErrorObject None)) ''42''
       (update_properties None None None None)
     = Inl (ErrorObject None)
   \<and> basicApi_archive (crm_failing (ErrorObject None)) ''42'' = Inl (ErrorObject None)
   \<and> searchApi_doSearch (crm_failing (ErrorObject None)) get_last_contacts_request
     = Inl (ErrorObject None)
   \<and> optional_message (ErrorObject None) = None
   \<and> returned (create_contact_handler (crm_failing (ErrorObject None)) ''a@b.com'' None None None)
       = Inr (text_result ''Failed to create contact: Unknown error'')
   \<and> returned (get_contact_handler (crm_failing (ErrorObject None)) ''a@b.com'')
       = Inr (text_result ''Failed to get contact: Unknown error'')
   \<and> returned (search_contacts_handler env_fixed (crm_failing (ErrorObject None)) None)
       = Inr (text_result ''Failed to search contacts: Unknown error'')
   \<and> returned (update_contact_handler (crm_failing (ErrorObject None)) ''42'' None None None None)
       = Inr (text_result ''Failed to update contact: Unknown error'')
   \<and> returned (delete_contact_handler (crm_failing (ErrorObject None)) ''42'')
       = Inr (text_result ''Failed to delete contact: Unknown error'')
   \<and> returned (get_last_contacts_handler env_fixed (crm_failing (ErrorObject None)))
       = Inr (text_result ''Failed to get last contacts: Unknown error'')"
  using remote_errors_are_returned [of "crm_failing (ErrorObject None)" "''a@b.com''" None None None
      env_fixed None "''42''" None "ErrorObject None"]
  by (simp add: crm_failing_def)

subsection \<open>The line \<^verbatim>\<open>Created:\<close> of a printed contact\<close>

lemma format_contacts_nth:
  "i < length results \<Longrightarrow>
     format_contacts e k results ! i = format_contact e (k + i) (results ! i)"
proof (induction results arbitrary: k i)
  case Nil
  then show ?case by simp
next
  case (Cons c cs)
  show ?case
  proof (cases i)
    case 0
    then show ?thesis by simp
  next
    case (Suc j)
    with Cons.prems have "j < length cs" by simp
    from Cons.IH [OF this, of "Suc k"] Suc show ?thesis by simp
  qed
qed

lemma created_line_of:
  "contact_lines e i c ! 4
     = ''Created: '' @ toLocaleString e (create_date e i (contact_properties c ''createdate''))"
  "cli_contact_lines e i c ! 4
     = ''Created: '' @ toLocaleString e (create_date e i (contact_properties c ''createdate''))"
  by (simp_all add: contact_lines_def cli_contact_lines_def Let_def)

text \<open>
  C8, as stated, fails where \<^verbatim>\<open>createdate\<close> is present and is the empty string: the
  formatter tests \<^verbatim>\<open>props.createdate\<close> for truthiness, so it does not parse the
  property (that would print \<^verbatim>\<open>Invalid Date\<close>) and prints the current time instead.
\<close>

theorem created_line_counterexample:
  "contact_properties (contact_of ''42'' Undefined Undefined Undefined Undefined (Str ''''))
       ''createdate'' = Str ''''
   \<and> contact_lines env_fixed 0 (contact_of ''42'' Undefined Undefined Undefined Undefined (Str '''')) ! 4
       = ''Created: 0 ms''
   \<and> ''Created: '' @ toLocaleString env_fixed (new_Date env_fixed '''') = ''Created: Invalid Date''
   \<and> contact_lines env_fixed 0 (contact_of ''42'' Undefined Undefined Undefined Undefined (Str '''')) ! 4
       \<noteq> ''Created: '' @ toLocaleString env_fixed (new_Date env_fixed '''')"
  by (simp add: contact_lines_def contact_of_def create_date_def new_Date_now_def new_Date_def
      toLocaleString_def env_fixed_def Let_def)

text \<open>
  C8, amended. In the list formatter of search-contacts and get-last-contacts (and in
  the command line's printing of the same lists), a \<^verbatim>\<open>createdate\<close> that is a non-empty
  string is parsed into a date and printed by the locale after \<^verbatim>\<open>Created: \<close>; a
  \<^verbatim>\<open>createdate\<close> that is missing, \<^verbatim>\<open>null\<close> or the empty string gives the time the
  clock shows when that record is formatted. The formatted list holds, at place \<open>j\<close>, the
  lines of record \<open>j\<close> joined by newlines.
\<close>

theorem created_line_parsed_or_now:
  "(contact_properties c ''createdate'' = Str s \<and> s \<noteq> [] \<longrightarrow>
      contact_lines e i c ! 4 = ''Created: '' @ toLocaleString e (new_Date e s)
      \<and> cli_contact_lines e i c ! 4 = ''Created: '' @ toLocaleString e (new_Date e s))
   \<and> (contact_properties c ''createdate'' = Undefined
        \<or> contact_properties c ''createdate'' = Null
        \<or> contact_properties c ''createdate'' = Str '''' \<longrightarrow>
      contact_lines e i c ! 4 = ''Created: '' @ toLocaleString e (new_Date_now e i)
      \<and> cli_contact_lines e i c ! 4 = ''Created: '' @ toLocaleString e (new_Date_now e i))
   \<and> (j < length results \<longrightarrow>
      format_contacts e 0 results ! j = join ''\<newline>'' (contact_lines e j (results ! j)))"
  using format_contacts_nth [of j results e 0]
  by (auto simp: created_line_of create_date_def format_contact_def)

theorem created_line_parsed_or_now_witness:
  "contact_properties (contact_of ''42'' Undefined Undefined Undefined Undefined
       (Str ''2024-01-01T00:00:00.000Z'')) ''createdate'' = Str ''2024-01-01T00:00:00.000Z''
   \<and> ''2024-01-01T00:00:00.000Z'' \<noteq> []
   \<and> (0 :: nat) < length [contact_of ''43'' Undefined Undefined Undefined Undefined Undefined]
   \<and> contact_lines env_fixed 0 (contact_of ''42'' Undefined Undefined Undefined Undefined
       (Str ''2024-01-01T00:00:00.000Z'')) ! 4 = ''Created: 1704067200000 ms''
   \<and> contact_properties (contact_of ''43'' Undefined Undefined Undefined Undefined Undefined)
       ''createdate'' = Undefined
   \<and> contact_lines env_fixed 0 (contact_of ''43'' Undefined Undefined Undefined Undefined Undefined) ! 4
       = ''Created: 0 ms''
   \<and> format_contacts env_fixed 0
        [contact_of ''43'' Undefined Undefined Undefined Undefined Undefined] ! 0
       = ''Contact ID: 43\<newline>Name:  \<newline>Email: N/A\<newline>Phone: N/A\<newline>Created: 0 ms\<newline>---''"
  using created_line_parsed_or_now [of
      "contact_of ''42'' Undefined Undefined Undefined Undefined (Str ''2024-01-01T00:00:00.000Z'')"
      "''2024-01-01T00:00:00.000Z''" env_fixed 0 0
      "[contact_of ''43'' Undefined Undefined Undefined Undefined Undefined]"]
    created_line_parsed_or_now [of
      "contact_of ''43'' Undefined Undefined Undefined Undefined Undefined"
      "''''" env_fixed 0 0 "[]"]
  by (simp add: contact_of_def env_fixed_def new_Date_def new_Date_now_def toLocaleString_def
      contact_lines_def create_date_def Let_def)

subsection \<open>Printing a contact and reading it back\<close>

lemma split_lines_line:
  "CHR 0x0A \<notin> set l \<Longrightarrow> split_lines (l @ CHR 0x0A # rest) = l # split_lines rest"
  by (induction l) auto

lemma split_lines_join_Cons:
  "CHR 0x0A \<notin> set l \<Longrightarrow> ls \<noteq> [] \<Longrightarrow>
     split_lines (join ''\<newline>'' (l # ls)) = l # split_lines (join ''\<newline>'' ls)"
  by (cases ls) (simp_all add: split_lines_line)

lemma round_trip_general:
  assumes "CHR 0x0A \<notin> set (contact_id c)"
    and "CHR 0x0A \<notin> set (value_or (contact_properties c ''firstname'') '''')"
    and "CHR 0x0A \<notin> set (value_or (contact_properties c ''lastname'') '''')"
    and "CHR 0x0A \<notin> set (value_or (contact_properties c ''email'') ''N/A'')"
    and "CHR 0x0A \<notin> set (value_or (contact_properties c ''phone'') ''N/A'')"
  shows "parse_block (format_contact e i c) =
     \<lparr>parsed_id = Some (contact_id c),
      parsed_name = Some (value_or (contact_properties c ''firstname'') '''' @ '' ''
                           @ value_or (contact_properties c ''lastname'') ''''),
      parsed_email = Some (value_or (contact_properties c ''email'') ''N/A''),
      parsed_phone = Some (value_or (contact_properties c ''phone'') ''N/A'')\<rparr>"
proof -
  define l1 where "l1 = ''Contact ID: '' @ contact_id c"
  define l2 where "l2 = ''Name: '' @ value_or (contact_properties c ''firstname'') '''' @ '' ''
                           @ value_or (contact_properties c ''lastname'') ''''"
  define l3 where "l3 = ''Email: '' @ value_or (contact_properties c ''email'') ''N/A''"
  define l4 where "l4 = ''Phone: '' @ value_or (contact_properties c ''phone'') ''N/A''"
  define rest where "rest = [''Created: '' @ toLocaleString e (create_date e i (contact_properties c ''createdate'')), ''---'']"
  have lines: "contact_lines e i c = l1 # l2 # l3 # l4 # rest"
    by (simp add: contact_lines_def Let_def l1_def l2_def l3_def l4_def rest_def)
  have free: "CHR 0x0A \<notin> set l1" "CHR 0x0A \<notin> set l2" "CHR 0x0A \<notin> set l3" "CHR 0x0A \<notin> set l4"
    using assms by (simp_all add: l1_def l2_def l3_def l4_def)
  have "rest \<noteq> []" by (simp add: rest_def)
  then have split: "split_lines (format_contact e i c)
      = l1 # l2 # l3 # l4 # split_lines (join ''\<newline>'' rest)"
    using free by (simp add: format_contact_def lines split_lines_join_Cons del: join.simps)
  show ?thesis
    unfolding parse_block_def Let_def split
    by (simp add: l1_def l2_def l3_def l4_def)
qed

text \<open>
  C9. The contact with identifier \<^verbatim>\<open>42\<close>, email \<^verbatim>\<open>a@b.com\<close>, first name \<^verbatim>\<open>A\<close>,
  last name \<^verbatim>\<open>B\<close> and phone \<^verbatim>\<open>555\<close> is printed as the block whose first four lines
  are \<^verbatim>\<open>Contact ID: 42\<close>, \<^verbatim>\<open>Name: A B\<close>, \<^verbatim>\<open>Email: a@b.com\<close> and \<^verbatim>\<open>Phone: 555\<close>,
  whatever its creation date, the clock and the locale are; reading the block back gives
  the identifier, the name \<^verbatim>\<open>A B\<close>, the email and the phone as they were.
\<close>

theorem round_trip_literal:
  "format_contact e i
       (contact_of ''42'' (Str ''a@b.com'') (Str ''A'') (Str ''B'') (Str ''555'') createdate)
     = ''Contact ID: 42\<newline>Name: A B\<newline>Email: a@b.com\<newline>Phone: 555\<newline>Created: ''
         @ toLocaleString e (create_date e i createdate) @ ''\<newline>---''
   \<and> parse_block (format_contact e i
       (contact_of ''42'' (Str ''a@b.com'') (Str ''A'') (Str ''B'') (Str ''555'') createdate))
     = \<lparr>parsed_id = Some ''42'', parsed_name = Some ''A B'',
        parsed_email = Some ''a@b.com'', parsed_phone = Some ''555''\<rparr>"
proof -
  let ?c = "contact_of ''42'' (Str ''a@b.com'') (Str ''A'') (Str ''B'') (Str ''555'') createdate"
  have printed: "format_contact e i ?c
     = ''Contact ID: 42\<newline>Name: A B\<newline>Email: a@b.com\<newline>Phone: 555\<newline>Created: ''
         @ toLocaleString e (create_date e i createdate) @ ''\<newline>---''"
    by (simp add: format_contact_def contact_lines_def contact_of_def Let_def)
  have "parse_block (format_contact e i ?c)
     = \<lparr>parsed_id = Some ''42'', parsed_name = Some ''A B'',
        parsed_email = Some ''a@b.com'', parsed_phone = Some ''555''\<rparr>"
    using round_trip_general [of ?c e i] by (simp add: contact_of_def)
  with printed show ?thesis by simp
qed

subsection \<open>The flag loop of update-contact\<close>

lemma cli_update_loop_pairs:
  "cli_update_loop updateArgs i properties = update_pairs (drop i updateArgs) properties"
proof (induction updateArgs i properties rule: cli_update_loop.induct)
  case (1 updateArgs i properties)
  show ?case
  proof (cases "i < length updateArgs")
    case False
    then show ?thesis by (simp add: cli_update_loop.simps [of updateArgs i])
  next
    case True
    then have here: "drop i updateArgs = updateArgs ! i # drop (Suc i) updateArgs"
      by (simp add: Cons_nth_drop_Suc)
    show ?thesis
    proof (cases "drop (Suc i) updateArgs")
      case Nil
      then have "nth_opt updateArgs (i + 1) = None" "drop (i + 2) updateArgs = []"
        by (simp_all add: nth_opt_def)
      with 1 True here Nil show ?thesis
        by (simp add: cli_update_loop.simps [of updateArgs i])
    next
      case (Cons v rest)
      then have "Suc i < length updateArgs" by (cases "Suc i < length updateArgs") simp_all
      then have "drop (Suc i) updateArgs = updateArgs ! Suc i # drop (Suc (Suc i)) updateArgs"
        by (simp add: Cons_nth_drop_Suc)
      with Cons have v: "nth_opt updateArgs (i + 1) = Some v" "drop (i + 2) updateArgs = rest"
        using \<open>Suc i < length updateArgs\<close> by (simp_all add: nth_opt_def)
      with 1 True here Cons show ?thesis
        by (simp add: cli_update_loop.simps [of updateArgs i])
    qed
  qed
qed

lemma set_prop_no_empty:
  "v \<noteq> [] \<Longrightarrow> '''' \<notin> snd ` set ps \<Longrightarrow> '''' \<notin> snd ` set (set_prop k v ps)"
  using set_prop_values [of k v ps] by auto

lemma assign_flag_values:
  "v \<noteq> [] \<Longrightarrow> '''' \<notin> snd ` set ps \<Longrightarrow> '''' \<notin> snd ` set (assign_flag flag v ps)"
  by (simp add: assign_flag_def set_prop_no_empty)

lemma update_pairs_values:
  "'''' \<notin> snd ` set ps \<Longrightarrow> '''' \<notin> snd ` set (update_pairs xs ps)"
proof (induction xs ps rule: update_pairs.induct)
  case (1 flag v rest properties)
  then show ?case by (cases "v = []") (simp_all add: assign_flag_values)
qed simp_all

lemma update_pairs_append:
  "even (length xs) \<Longrightarrow> update_pairs (xs @ ys) ps = update_pairs ys (update_pairs xs ps)"
  by (induction xs ps rule: update_pairs.induct) simp_all

lemma update_pairs_skip:
  "even (length pre) \<Longrightarrow>
     update_pairs (pre @ flag # '''' # post) ps = update_pairs (pre @ post) ps"
  by (simp add: update_pairs_append)

lemma update_pairs_flag_arg:
  "update_pairs (flag_arg ''--email'' x) ps = set_if_truthy ''email'' x ps"
  "update_pairs (flag_arg ''--firstName'' x) ps = set_if_truthy ''firstname'' x ps"
  "update_pairs (flag_arg ''--lastName'' x) ps = set_if_truthy ''lastname'' x ps"
  "update_pairs (flag_arg ''--phone'' x) ps = set_if_truthy ''phone'' x ps"
  by (simp_all add: flag_arg_def set_if_truthy_def assign_flag_def split: option.split)

lemma even_flag_arg: "even (length (flag_arg flag x))"
  by (simp add: flag_arg_def split: option.split)

lemma update_pairs_update_flags:
  "update_pairs (update_flags email firstName lastName phone) [] =
     update_properties email firstName lastName phone"
  by (simp add: update_flags_def update_properties_def update_pairs_append even_flag_arg
      update_pairs_flag_arg)

subsection \<open>The remote calls of the two entry points\<close>

lemma nth_opt_Cons:
  "nth_opt (x # xs) 0 = Some x"
  "nth_opt (x # xs) (Suc i) = nth_opt xs i"
  "nth_opt [] i = None"
  by (simp_all add: nth_opt_def)

lemma nth_opt_numeral:
  "nth_opt xs 1 = nth_opt xs (Suc 0)"
  "nth_opt xs 2 = nth_opt xs (Suc (Suc 0))"
  "nth_opt xs 3 = nth_opt xs (Suc (Suc (Suc 0)))"
  by (simp_all add: numeral_2_eq_2 numeral_3_eq_3)

lemma cli_create_contact_calls:
  "cli_calls (cli_create_contact hubspotClient args) =
     (case nth_opt args 0 of
        None \<Rightarrow> []
      | Some email \<Rightarrow>
          if email = [] then []
          else [Create (create_properties email (nth_opt args 1) (nth_opt args 2) (nth_opt args 3))])"
  by (simp add: cli_create_contact_def create_usage_def usage_exit_def create_properties_def Let_def
      split: option.split sum.split)

lemma cli_get_contact_calls:
  "cli_calls (cli_get_contact hubspotClient args) =
     (case nth_opt args 0 of
        None \<Rightarrow> []
      | Some email \<Rightarrow> if email = [] then [] else [DoSearch (get_contact_request email)])"
  by (simp add: cli_get_contact_def get_usage_def usage_exit_def get_contact_request_def Let_def
      split: option.split sum.split)

lemma cli_delete_contact_calls:
  "cli_calls (cli_delete_contact hubspotClient args) =
     (case nth_opt args 0 of
        None \<Rightarrow> []
      | Some contactId \<Rightarrow> if contactId = [] then [] else [Archive contactId])"
  by (simp add: cli_delete_contact_def delete_usage_def usage_exit_def
      split: option.split sum.split)

lemma cli_update_contact_calls:
  "cli_calls (cli_update_contact hubspotClient args) =
     (case nth_opt args 0 of
        None \<Rightarrow> []
      | Some contactId \<Rightarrow>
          if contactId = [] then [] else [Update contactId (update_pairs (drop 1 args) [])])"
  by (simp add: cli_update_contact_def update_usage_def usage_exit_def cli_update_loop_pairs Let_def
      split: option.split sum.split)

lemma cli_search_contacts_calls:
  "cli_calls (cli_search_contacts e hubspotClient) = [GetPage search_contacts_page]"
  by (simp add: cli_search_contacts_def search_contacts_page_def list_properties_def Let_def
      split: sum.split)

lemma cli_get_last_contacts_calls:
  "cli_calls (cli_get_last_contacts e hubspotClient) = [DoSearch get_last_contacts_request]"
  by (simp add: cli_get_last_contacts_def get_last_contacts_request_def list_properties_def Let_def
      split: sum.split)

lemmas cli_branch_calls =
  cli_create_contact_calls cli_get_contact_calls cli_delete_contact_calls
  cli_update_contact_calls cli_search_contacts_calls cli_get_last_contacts_calls

lemma main_calls:
  "cli_calls (main e hubspotClient argv) =
     (let command = nth_opt argv 2; args = drop 3 argv
      in if command = Some ''create-contact'' then cli_calls (cli_create_contact hubspotClient args)
         else if command = Some ''get-contact'' then cli_calls (cli_get_contact hubspotClient args)
         else if command = Some ''delete-contact'' then cli_calls (cli_delete_contact hubspotClient args)
         else if command = Some ''search-contacts'' then cli_calls (cli_search_contacts e hubspotClient)
         else if command = Some ''update-contact'' then cli_calls (cli_update_contact hubspotClient args)
         else if command = Some ''get-last-contacts'' then cli_calls (cli_get_last_contacts e hubspotClient)
         else [])"
  by (simp add: main_def Let_def)

lemma handler_calls:
  "calls (create_contact_handler hubspotClient email firstName lastName phone)
     = [Create (create_properties email firstName lastName phone)]"
  "calls (get_contact_handler hubspotClient email) = [DoSearch (get_contact_request email)]"
  "calls (search_contacts_handler e hubspotClient query) = [GetPage search_contacts_page]"
  "calls (update_contact_handler hubspotClient contactId uEmail firstName lastName phone)
     = [Update contactId (update_properties uEmail firstName lastName phone)]"
  "calls (delete_contact_handler hubspotClient contactId) = [Archive contactId]"
  "calls (get_last_contacts_handler e hubspotClient) = [DoSearch get_last_contacts_request]"
  by (simp_all add: create_contact_handler_def get_contact_handler_def
      search_contacts_handler_def update_contact_handler_def delete_contact_handler_def
      get_last_contacts_handler_def Let_def split: sum.split)

lemma main_command:
  "nth_opt (node # script # command # args) 2 = Some command"
  "drop 3 (node # script # command # args) = args"
  by (simp_all add: nth_opt_def)

lemma create_properties_or_else:
  "create_properties email (Some (or_else firstName '''')) (Some (or_else lastName ''''))
       (Some (or_else phone ''''))
     = create_properties email firstName lastName phone"
  by (simp add: create_properties_def set_if_truthy_def or_else_def split: option.split)

lemma map_of_set_prop: "map_of (set_prop k v ps) = (map_of ps)(k \<mapsto> v)"
  by (induction k v ps rule: set_prop.induct) (auto simp: fun_eq_iff)

lemma map_of_set_if_truthy:
  "map_of (set_if_truthy k x ps) = (if truthy x then (map_of ps)(k := x) else map_of ps)"
  by (simp add: set_if_truthy_def truthy_def map_of_set_prop split: option.split)

lemma last_value_truthy: "last_value flag xs = Some v \<Longrightarrow> v \<noteq> []"
  by (induction flag xs arbitrary: v rule: last_value.induct)
    (auto split: option.splits if_splits)

lemma truthy_last_value:
  "truthy (last_value flag xs) = (last_value flag xs \<noteq> None)"
  using last_value_truthy [of flag xs] by (cases "last_value flag xs") (simp_all add: truthy_def)

lemma map_of_assign_flag:
  "v \<noteq> [] \<Longrightarrow> map_of (assign_flag f v ps) =
     (if f = ''--email'' then (map_of ps)(''email'' \<mapsto> v)
      else if f = ''--firstName'' then (map_of ps)(''firstname'' \<mapsto> v)
      else if f = ''--lastName'' then (map_of ps)(''lastname'' \<mapsto> v)
      else if f = ''--phone'' then (map_of ps)(''phone'' \<mapsto> v)
      else map_of ps)"
  by (simp add: assign_flag_def map_of_set_prop)

lemma map_of_update_pairs:
  "map_of (update_pairs xs ps) k =
     (case flag_key k of
        None \<Rightarrow> map_of ps k
      | Some flag \<Rightarrow> (case last_value flag xs of Some v \<Rightarrow> Some v | None \<Rightarrow> map_of ps k))"
proof (induction xs ps rule: update_pairs.induct)
  case (1 f v rest properties)
  show ?case
  proof (cases "v = []")
    case True
    with 1 show ?thesis by (simp split: option.split)
  next
    case False
    with 1 show ?thesis
      by (simp add: map_of_assign_flag flag_key_def split: option.split)
  qed
qed (simp_all split: option.split)

lemma map_of_update_properties:
  "map_of (update_properties a b c d) k =
     (if k = ''phone'' \<and> truthy d then d
      else if k = ''lastname'' \<and> truthy c then c
      else if k = ''firstname'' \<and> truthy b then b
      else if k = ''email'' \<and> truthy a then a else None)"
  by (simp add: update_properties_def map_of_set_if_truthy)

lemma update_pairs_same_mapping:
  "map_of (update_pairs xs []) =
     map_of (update_properties (last_value ''--email'' xs) (last_value ''--firstName'' xs)
       (last_value ''--lastName'' xs) (last_value ''--phone'' xs))"
  by (rule ext)
    (simp add: map_of_update_pairs map_of_update_properties truthy_last_value flag_key_def
      split: option.split)

lemma tool_calls_create:
  "tool_calls (create_contact_tool isEmail hubspotClient (Some email) firstName lastName phone)
     = (if isEmail email then [Create (create_properties email firstName lastName phone)] else [])"
  "tool_calls (create_contact_tool isEmail hubspotClient None firstName lastName phone) = []"
  by (simp_all add: create_contact_tool_def handler_calls)

lemma tool_calls_get:
  "tool_calls (get_contact_tool isEmail hubspotClient (Some email))
     = (if isEmail email then [DoSearch (get_contact_request email)] else [])"
  "tool_calls (get_contact_tool isEmail hubspotClient None) = []"
  by (simp_all add: get_contact_tool_def handler_calls)

lemma tool_calls_update:
  "tool_calls (update_contact_tool isEmail hubspotClient (Some contactId) email firstName lastName phone)
     = (if optional_email isEmail email
        then [Update contactId (update_properties email firstName lastName phone)] else [])"
  "tool_calls (update_contact_tool isEmail hubspotClient None email firstName lastName phone) = []"
  by (simp_all add: update_contact_tool_def handler_calls)

lemma tool_calls_delete:
  "tool_calls (delete_contact_tool hubspotClient (Some contactId)) = [Archive contactId]"
  "tool_calls (delete_contact_tool hubspotClient None) = []"
  by (simp_all add: delete_contact_tool_def handler_calls)

lemma tool_calls_lists:
  "tool_calls (search_contacts_tool e hubspotClient query) = [GetPage search_contacts_page]"
  "tool_calls (get_last_contacts_tool e hubspotClient) = [DoSearch get_last_contacts_request]"
  by (simp_all add: search_contacts_tool_def get_last_contacts_tool_def handler_calls)

lemmas tool_calls_of =
  tool_calls_create tool_calls_get tool_calls_update tool_calls_delete tool_calls_lists

lemma simple_email_values:
  "\<not> simple_email ''''" "\<not> simple_email ''notanemail''" "simple_email ''a@b.com''"
  by (simp_all add: simple_email_def)

text \<open>
  C1, as stated, fails in two ways. Where a required identifier is the empty string,
  the tools delete-contact and update-contact (whose schema is any string) issue their
  remote call, while the command line stops at its \<^verbatim>\<open>if (!contactId)\<close> guard, prints the
  usage and issues none. Where the email is a non-empty string that is no email address,
  the command line issues the create call, while the tool's schema rejects the request
  and no call is issued.
\<close>

theorem cli_guard_counterexample:
  "tool_calls (delete_contact_tool crm_empty (Some '''')) = [Archive '''']
   \<and> cli_calls (main env_fixed crm_empty [''node'', ''build/index.js'', ''delete-contact'', '''']) = []
   \<and> tool_calls (update_contact_tool simple_email crm_empty (Some '''') None None None (Some ''555''))
       = [Update '''' [(''phone'', ''555'')]]
   \<and> cli_calls (main env_fixed crm_empty
         [''node'', ''build/index.js'', ''update-contact'', '''', ''--phone'', ''555'']) = []
   \<and> tool_calls (create_contact_tool simple_email crm_empty (Some ''notanemail'') None None None) = []
   \<and> cli_calls (main env_fixed crm_empty
         [''node'', ''build/index.js'', ''create-contact'', ''notanemail''])
       = [Create [(''email'', ''notanemail'')]]"
  by (simp add: tool_calls_of simple_email_values optional_email_def main_calls main_command
      cli_branch_calls nth_opt_Cons nth_opt_numeral update_properties_def create_properties_def
      set_if_truthy_def)

text \<open>
  C1, amended. The email check of the schema rejects the empty string; this is the
  theorem's one assumption about it. For each of the six operations, the command line
  issues the remote call that the protocol tool (the schema, then the handler) issues on
  the corresponding request, whenever the schema accepts the request's email and the
  contact identifier is not empty. For create-contact the positional arguments after the
  email are the first name, the last name and the phone, and a request is written with an
  empty string in the place of a field it does not supply. For update-contact the flags
  may come in any order and any number: the request they stand for has, for each field,
  the last non-empty value given to its flag, and the two calls carry the same mapping
  from keys to values; written as the flags of its supplied fields in the handler's
  order, a request gives the very same call, key order included. Where the email of
  create-contact or get-contact is empty, or a required argument is missing, neither
  path issues a remote call.
\<close>

theorem cli_issues_same_call:
  assumes "\<not> isEmail ''''"
  shows "(isEmail email \<longrightarrow>
        cli_calls (main e hubspotClient (node # script # ''create-contact'' # email # rest))
          = tool_calls (create_contact_tool isEmail hubspotClient (Some email)
                          (nth_opt rest 0) (nth_opt rest 1) (nth_opt rest 2))
        \<and> cli_calls (main e hubspotClient
             [node, script, ''create-contact'', email,
              or_else firstName '''', or_else lastName '''', or_else phone ''''])
          = tool_calls (create_contact_tool isEmail hubspotClient (Some email)
                          firstName lastName phone)
        \<and> cli_calls (main e hubspotClient (node # script # ''get-contact'' # email # rest))
          = tool_calls (get_contact_tool isEmail hubspotClient (Some email)))
     \<and> (contactId \<noteq> [] \<longrightarrow>
        cli_calls (main e hubspotClient (node # script # ''delete-contact'' # contactId # rest))
          = tool_calls (delete_contact_tool hubspotClient (Some contactId))
        \<and> (optional_email isEmail uEmail \<longrightarrow>
             cli_calls (main e hubspotClient
               (node # script # ''update-contact'' # contactId
                  # update_flags uEmail firstName lastName phone))
             = tool_calls (update_contact_tool isEmail hubspotClient (Some contactId)
                             uEmail firstName lastName phone))
        \<and> (optional_email isEmail (last_value ''--email'' updateArgs) \<longrightarrow>
             list_all2 same_call
               (cli_calls (main e hubspotClient
                  (node # script # ''update-contact'' # contactId # updateArgs)))
               (tool_calls (update_contact_tool isEmail hubspotClient (Some contactId)
                  (last_value ''--email'' updateArgs) (last_value ''--firstName'' updateArgs)
                  (last_value ''--lastName'' updateArgs) (last_value ''--phone'' updateArgs)))))
     \<and> cli_calls (main e hubspotClient (node # script # ''search-contacts'' # rest))
          = tool_calls (search_contacts_tool e hubspotClient query)
     \<and> cli_calls (main e hubspotClient (node # script # ''get-last-contacts'' # rest))
          = tool_calls (get_last_contacts_tool e hubspotClient)
     \<and> cli_calls (main e hubspotClient (node # script # ''create-contact'' # '''' # rest))
          = tool_calls (create_contact_tool isEmail hubspotClient (Some '''')
                          (nth_opt rest 0) (nth_opt rest 1) (nth_opt rest 2))
     \<and> cli_calls (main e hubspotClient (node # script # ''get-contact'' # '''' # rest))
          = tool_calls (get_contact_tool isEmail hubspotClient (Some ''''))
     \<and> cli_calls (main e hubspotClient [node, script, ''create-contact''])
          = tool_calls (create_contact_tool isEmail hubspotClient None firstName lastName phone)
     \<and> cli_calls (main e hubspotClient [node, script, ''get-contact''])
          = tool_calls (get_contact_tool isEmail hubspotClient None)
     \<and> cli_calls (main e hubspotClient [node, script, ''delete-contact''])
          = tool_calls (delete_contact_tool hubspotClient None)
     \<and> cli_calls (main e hubspotClient [node, script, ''update-contact''])
          = tool_calls (update_contact_tool isEmail hubspotClient None
                          uEmail firstName lastName phone)"
proof -
  have nonempty: "isEmail email \<Longrightarrow> email \<noteq> []"
    using assms by auto
  show ?thesis
    using assms nonempty
    by (simp add: tool_calls_of main_calls main_command cli_branch_calls nth_opt_Cons
        nth_opt_numeral create_properties_or_else update_pairs_update_flags
        update_pairs_same_mapping)
qed

theorem cli_issues_same_call_witness:
  "\<not> simple_email '''' \<and> simple_email ''a@b.com'' \<and> ''42'' \<noteq> []
   \<and> optional_email simple_email (Some ''a@b.com'')
   \<and> optional_email simple_email
         (last_value ''--email'' [''--phone'', ''555'', ''--email'', ''a@b.com''])
   \<and> cli_calls (main env_fixed crm_empty
        [''node'', ''build/index.js'', ''create-contact'', ''a@b.com'', ''A'', ''B''])
       = [Create [(''email'', ''a@b.com''), (''firstname'', ''A''), (''lastname'', ''B'')]]
   \<and> tool_calls (create_contact_tool simple_email crm_empty
         (Some ''a@b.com'') (Some ''A'') (Some ''B'') None)
       = [Create [(''email'', ''a@b.com''), (''firstname'', ''A''), (''lastname'', ''B'')]]
   \<and> cli_calls (main env_fixed crm_empty
        [''node'', ''build/index.js'', ''update-contact'', ''42'', ''--phone'', ''555'',
         ''--email'', ''a@b.com''])
       = [Update ''42'' [(''phone'', ''555''), (''email'', ''a@b.com'')]]
   \<and> tool_calls (update_contact_tool simple_email crm_empty (Some ''42'')
         (Some ''a@b.com'') None None (Some ''555''))
       = [Update ''42'' [(''email'', ''a@b.com''), (''phone'', ''555'')]]
   \<and> list_all2 same_call
         [Update ''42'' [(''phone'', ''555''), (''email'', ''a@b.com'')]]
         [Update ''42'' [(''email'', ''a@b.com''), (''phone'', ''555'')]]"
  using cli_issues_same_call [where isEmail = simple_email and email = "''a@b.com''"
      and e = env_fixed and hubspotClient = crm_empty and node = "''node''"
      and script = "''build/index.js''" and rest = "[''A'', ''B'']"
      and firstName = "Some ''A''" and lastName = "Some ''B''" and phone = None
      and contactId = "''42''" and uEmail = "Some ''a@b.com''" and query = None
      and updateArgs = "[''--phone'', ''555'', ''--email'', ''a@b.com'']"]
  by (simp add: simple_email_values optional_email_def tool_calls_of main_calls main_command
      cli_branch_calls nth_opt_Cons nth_opt_numeral create_properties_def update_properties_def
      set_if_truthy_def assign_flag_def)

subsection \<open>Empty strings\<close>

lemma args_cases:
  "(args = [] \<Longrightarrow> P) \<Longrightarrow> (\<And>a. args = [a] \<Longrightarrow> P) \<Longrightarrow> (\<And>a b. args = [a, b] \<Longrightarrow> P)
     \<Longrightarrow> (\<And>a b c. args = [a, b, c] \<Longrightarrow> P)
     \<Longrightarrow> (\<And>a b c d rest. args = a # b # c # d # rest \<Longrightarrow> P) \<Longrightarrow> P"
  by (metis list.exhaust)

lemma set_if_truthy_empty: "set_if_truthy k (Some '''') ps = set_if_truthy k None ps"
  by (simp add: set_if_truthy_def)

lemma or_else_empty: "or_else (Some '''') d = or_else None d"
  by (simp add: or_else_def)

lemma cli_create_contact_trailing_empty:
  "cli_create_contact hubspotClient (args @ ['''']) = cli_create_contact hubspotClient args"
  by (cases args rule: args_cases)
    (simp_all add: cli_create_contact_def nth_opt_Cons nth_opt_numeral set_if_truthy_empty
      or_else_empty Let_def cong: sum.case_cong)

lemma main_args:
  "main e hubspotClient (node # script # ''create-contact'' # args)
     = (cli_create_contact hubspotClient args)
         \<lparr>stderr := ''HubSpot MCP Server running on stdio''
            # stderr (cli_create_contact hubspotClient args)\<rparr>"
  "main e hubspotClient (node # script # ''update-contact'' # args)
     = (cli_update_contact hubspotClient args)
         \<lparr>stderr := ''HubSpot MCP Server running on stdio''
            # stderr (cli_update_contact hubspotClient args)\<rparr>"
  by (simp_all add: main_def main_command Let_def)

lemma cli_update_contact_skip:
  "even (length pre) \<Longrightarrow>
     cli_update_contact hubspotClient (contactId # pre @ flag # '''' # post)
       = cli_update_contact hubspotClient (contactId # pre @ post)"
  by (simp add: cli_update_contact_def cli_update_loop_pairs update_pairs_skip nth_opt_Cons)

lemma create_properties_values:
  "email \<noteq> [] \<Longrightarrow> '''' \<notin> snd ` set (create_properties email firstName lastName phone)"
  by (simp add: create_properties_def set_if_truthy_values)

lemma update_properties_values:
  "'''' \<notin> snd ` set (update_properties email firstName lastName phone)"
  by (simp add: update_properties_def set_if_truthy_values)

lemma main_Create_values:
  assumes "Create ps \<in> set (cli_calls (main e hubspotClient argv))"
  shows "'''' \<notin> snd ` set ps"
proof -
  from assms obtain email a b c where "email \<noteq> []" "ps = create_properties email a b c"
    by (auto simp: main_calls cli_branch_calls Let_def split: if_splits option.splits)
  then show ?thesis by (simp add: create_properties_values)
qed

lemma main_Update_values:
  assumes "Update cid ps \<in> set (cli_calls (main e hubspotClient argv))"
  shows "'''' \<notin> snd ` set ps"
proof -
  from assms obtain xs where "ps = update_pairs xs []"
    by (auto simp: main_calls cli_branch_calls Let_def split: if_splits option.splits)
  then show ?thesis by (simp add: update_pairs_values)
qed

lemma tool_Create_values:
  assumes "\<not> isEmail ''''"
    and "Create ps \<in> set (tool_calls
           (create_contact_tool isEmail hubspotClient email firstName lastName phone))"
  shows "'''' \<notin> snd ` set ps"
proof (cases email)
  case None
  with assms(2) show ?thesis by (simp add: tool_calls_of)
next
  case (Some v)
  with assms(2) have "isEmail v" "ps = create_properties v firstName lastName phone"
    by (simp_all add: tool_calls_of split: if_splits)
  moreover from \<open>isEmail v\<close> assms(1) have "v \<noteq> []" by auto
  ultimately show ?thesis by (simp add: create_properties_values)
qed

lemma tool_Update_values:
  assumes "Update cid ps \<in> set (tool_calls
           (update_contact_tool isEmail hubspotClient contactId email firstName lastName phone))"
  shows "'''' \<notin> snd ` set ps"
proof -
  from assms have "ps = update_properties email firstName lastName phone"
    by (cases contactId) (auto simp: tool_calls_of split: if_splits)
  then show ?thesis by (simp add: update_properties_values)
qed

text \<open>
  C10, as stated, fails for the email of update-contact in protocol mode: its schema
  demands an email address, so a request whose email is the empty string is rejected
  and no remote call is issued, while a request with no email issues the update.
\<close>

theorem empty_email_rejected_counterexample:
  "update_contact_tool simple_email crm_empty (Some ''42'') (Some '''') None None None
     = ValidationFailure
   \<and> tool_calls (update_contact_tool simple_email crm_empty (Some ''42'') (Some '''') None None None)
     = []
   \<and> tool_calls (update_contact_tool simple_email crm_empty (Some ''42'') None None None None)
     = [Update ''42'' []]"
  by (simp add: update_contact_tool_def optional_email_def simple_email_values handler_calls
      update_properties_def set_if_truthy_def)

text \<open>
  C10, amended. In create-contact and update-contact an optional field given as the
  empty string is handled as an absent one, with one exception: the email of
  update-contact in protocol mode, where the outcome is that of the absent email only if
  the schema's email check accepts the empty string, and a validation failure with no
  remote call otherwise. For every other optional field the whole response of the tool is
  the one for the absent field, and the field's key is not in the mapping. On the command
  line, an empty argument at the end of create-contact's arguments changes nothing, and
  update-contact skips a flag whose value is empty, the email's included. No mapping
  these operations send holds an empty string: none that the update tool sends, none
  that the create tool sends when the email check rejects the empty string, and none
  that \<^verbatim>\<open>main\<close> sends with a create or an update call.
\<close>

theorem empty_string_is_absent:
  "create_contact_tool isEmail hubspotClient email (Some '''') lastName phone
     = create_contact_tool isEmail hubspotClient email None lastName phone
   \<and> create_contact_tool isEmail hubspotClient email firstName (Some '''') phone
     = create_contact_tool isEmail hubspotClient email firstName None phone
   \<and> create_contact_tool isEmail hubspotClient email firstName lastName (Some '''')
     = create_contact_tool isEmail hubspotClient email firstName lastName None
   \<and> update_contact_tool isEmail hubspotClient contactId uEmail (Some '''') lastName phone
     = update_contact_tool isEmail hubspotClient contactId uEmail None lastName phone
   \<and> update_contact_tool isEmail hubspotClient contactId uEmail firstName (Some '''') phone
     = update_contact_tool isEmail hubspotClient contactId uEmail firstName None phone
   \<and> update_contact_tool isEmail hubspotClient contactId uEmail firstName lastName (Some '''')
     = update_contact_tool isEmail hubspotClient contactId uEmail firstName lastName None
   \<and> update_contact_tool isEmail hubspotClient contactId (Some '''') firstName lastName phone
     = (if isEmail ''''
        then update_contact_tool isEmail hubspotClient contactId None firstName lastName phone
        else ValidationFailure)
   \<and> ''firstname'' \<notin> fst ` set (create_properties address (Some '''') None None)
   \<and> ''email'' \<notin> fst ` set (update_properties (Some '''') None None None)
   \<and> main e hubspotClient (node # script # ''create-contact'' # args @ [''''])
     = main e hubspotClient (node # script # ''create-contact'' # args)
   \<and> (even (length pre) \<longrightarrow>
        main e hubspotClient
          (node # script # ''update-contact'' # cliId # pre @ flag # '''' # post)
        = main e hubspotClient (node # script # ''update-contact'' # cliId # pre @ post))
   \<and> (\<not> isEmail '''' \<longrightarrow>
        Create ps \<in> set (tool_calls
          (create_contact_tool isEmail hubspotClient email firstName lastName phone)) \<longrightarrow>
        '''' \<notin> snd ` set ps)
   \<and> (Update cid ps \<in> set (tool_calls
          (update_contact_tool isEmail hubspotClient contactId uEmail firstName lastName phone))
        \<longrightarrow> '''' \<notin> snd ` set ps)
   \<and> (Create ps \<in> set (cli_calls (main e hubspotClient argv)) \<longrightarrow> '''' \<notin> snd ` set ps)
   \<and> (Update cid ps \<in> set (cli_calls (main e hubspotClient argv)) \<longrightarrow> '''' \<notin> snd ` set ps)"
proof -
  have handlers:
    "create_contact_handler hubspotClient v (Some '''') lastName phone
       = create_contact_handler hubspotClient v None lastName phone"
    "create_contact_handler hubspotClient v firstName (Some '''') phone
       = create_contact_handler hubspotClient v firstName None phone"
    "create_contact_handler hubspotClient v firstName lastName (Some '''')
       = create_contact_handler hubspotClient v firstName lastName None"
    "update_contact_handler hubspotClient v (Some '''') firstName lastName phone
       = update_contact_handler hubspotClient v None firstName lastName phone"
    "update_contact_handler hubspotClient v uEmail (Some '''') lastName phone
       = update_contact_handler hubspotClient v uEmail None lastName phone"
    "update_contact_handler hubspotClient v uEmail firstName (Some '''') phone
       = update_contact_handler hubspotClient v uEmail firstName None phone"
    "update_contact_handler hubspotClient v uEmail firstName lastName (Some '''')
       = update_contact_handler hubspotClient v uEmail firstName lastName None" for v
    by (simp_all add: create_contact_handler_def update_contact_handler_def create_properties_def
        update_properties_def set_if_truthy_empty or_else_empty cong: sum.case_cong)
  have tools:
    "create_contact_tool isEmail hubspotClient email (Some '''') lastName phone
       = create_contact_tool isEmail hubspotClient email None lastName phone"
    "create_contact_tool isEmail hubspotClient email firstName (Some '''') phone
       = create_contact_tool isEmail hubspotClient email firstName None phone"
    "create_contact_tool isEmail hubspotClient email firstName lastName (Some '''')
       = create_contact_tool isEmail hubspotClient email firstName lastName None"
    "update_contact_tool isEmail hubspotClient contactId uEmail (Some '''') lastName phone
       = update_contact_tool isEmail hubspotClient contactId uEmail None lastName phone"
    "update_contact_tool isEmail hubspotClient contactId uEmail firstName (Some '''') phone
       = update_contact_tool isEmail hubspotClient contactId uEmail firstName None phone"
    "update_contact_tool isEmail hubspotClient contactId uEmail firstName lastName (Some '''')
       = update_contact_tool isEmail hubspotClient contactId uEmail firstName lastName None"
    "update_contact_tool isEmail hubspotClient contactId (Some '''') firstName lastName phone
       = (if isEmail ''''
          then update_contact_tool isEmail hubspotClient contactId None firstName lastName phone
          else ValidationFailure)"
    by (simp_all add: create_contact_tool_def update_contact_tool_def optional_email_def handlers
        split: option.split)
  have keys:
    "''firstname'' \<notin> fst ` set (create_properties address (Some '''') None None)"
    "''email'' \<notin> fst ` set (update_properties (Some '''') None None None)"
    by (simp_all add: create_properties_def update_properties_def set_if_truthy_def)
  have cli_create:
    "main e hubspotClient (node # script # ''create-contact'' # args @ [''''])
       = main e hubspotClient (node # script # ''create-contact'' # args)"
    using main_args(1) [of e hubspotClient node script "args @ ['''']"]
    by (simp add: main_args(1) cli_create_contact_trailing_empty)
  have cli_update:
    "even (length pre) \<longrightarrow>
        main e hubspotClient
          (node # script # ''update-contact'' # cliId # pre @ flag # '''' # post)
        = main e hubspotClient (node # script # ''update-contact'' # cliId # pre @ post)"
    by (simp add: main_args(2) cli_update_contact_skip)
  show ?thesis
    using tools keys cli_create cli_update
      tool_Create_values [of isEmail ps hubspotClient email firstName lastName phone]
      tool_Update_values [of cid ps isEmail hubspotClient contactId uEmail firstName lastName phone]
      main_Create_values [of ps e hubspotClient argv]
      main_Update_values [of cid ps e hubspotClient argv]
    by blast
qed

theorem empty_string_is_absent_witness:
  "even (length [''--email'', ''a@b.com''])
   \<and> main env_fixed crm_empty
        [''node'', ''build/index.js'', ''update-contact'', ''42'', ''--email'', ''a@b.com'',
         ''--phone'', '''']
     = main env_fixed crm_empty
        [''node'', ''build/index.js'', ''update-contact'', ''42'', ''--email'', ''a@b.com'']
   \<and> \<not> simple_email ''''
   \<and> Create [(''email'', ''a@b.com''), (''lastname'', ''B'')]
       \<in> set (tool_calls (create_contact_tool simple_email crm_empty
             (Some ''a@b.com'') (Some '''') (Some ''B'') (Some '''')))
   \<and> Create [(''email'', ''a@b.com''), (''lastname'', ''B'')]
       \<in> set (cli_calls (main env_fixed crm_empty
             [''node'', ''build/index.js'', ''create-contact'', ''a@b.com'', '''', ''B'']))
   \<and> Update ''42'' [(''email'', ''a@b.com'')]
       \<in> set (tool_calls (update_contact_tool simple_email crm_empty
             (Some ''42'') (Some ''a@b.com'') (Some '''') None (Some '''')))
   \<and> Update ''42'' [(''email'', ''a@b.com'')]
       \<in> set (cli_calls (main env_fixed crm_empty
             [''node'', ''build/index.js'', ''update-contact'', ''42'', ''--email'', ''a@b.com'',
              ''--phone'', '''']))
   \<and> '''' \<notin> snd ` set [(''email'', ''a@b.com''), (''lastname'', ''B'')]
   \<and> '''' \<notin> snd ` set [(''email'', ''a@b.com'')]
   \<and> update_contact_tool simple_email crm_empty (Some ''42'') (Some '''') None None None
       = ValidationFailure"
  using empty_string_is_absent [where isEmail = simple_email and e = env_fixed
      and hubspotClient = crm_empty
      and node = "''node''" and script = "''build/index.js''" and cliId = "''42''"
      and pre = "[''--email'', ''a@b.com'']" and flag = "''--phone''" and post = "[]"
      and email = "Some ''a@b.com''" and firstName = "Some ''''" and lastName = "Some ''B''"
      and phone = "Some ''''"
      and ps = "[(''email'', ''a@b.com''), (''lastname'', ''B'')]"
      and argv = "[''node'', ''build/index.js'', ''create-contact'', ''a@b.com'', '''', ''B'']"]
    empty_string_is_absent [where isEmail = simple_email and e = env_fixed
      and hubspotClient = crm_empty and pre = "[]" and cid = "''42''"
      and contactId = "Some ''42''" and uEmail = "Some ''a@b.com''"
      and firstName = "Some ''''" and lastName = None and phone = "Some ''''"
      and ps = "[(''email'', ''a@b.com'')]"
      and argv = "[''node'', ''build/index.js'', ''update-contact'', ''42'', ''--email'',
                   ''a@b.com'', ''--phone'', '''']"]
    empty_string_is_absent [where isEmail = simple_email and hubspotClient = crm_empty
      and contactId = "Some ''42''" and firstName = None and lastName = None and phone = None
      and pre = "[]"]
  by (simp add: simple_email_values optional_email_def tool_calls_of main_calls main_command
      cli_branch_calls nth_opt_Cons nth_opt_numeral create_properties_def update_properties_def
      set_if_truthy_def assign_flag_def)

end
